theory Spec2Isabelle
  imports Main "HOL-Library.Word"
begin

unbundle bit_operations_syntax

text \<open>
  A shallow embedding of the HTTP/3 layer of quic-go (package http3): the error codes, the
  connection engine that classifies the peer's streams and reads its SETTINGS, the body of
  a response, and the client's round trip. Each function of the source is a function here;
  what the QUIC session, the streams and the codecs deliver is an argument, and the calls
  made on them are returned as a list of events.
\<close>

section \<open>HTTP/3 error codes (http3/errors.go)\<close>

text \<open>
  \<^verbatim>\<open>type errorCode quic.ApplicationErrorCode\<close>: an unsigned 64-bit integer. The constants
  are written in hexadecimal, as the source has them.
\<close>

type_synonym errorCode = "64 word"

definition errorNoError :: errorCode where "errorNoError = 0x100"
definition errorGeneralProtocolError :: errorCode where "errorGeneralProtocolError = 0x101"
definition errorInternalError :: errorCode where "errorInternalError = 0x102"
definition errorStreamCreationError :: errorCode where "errorStreamCreationError = 0x103"
definition errorClosedCriticalStream :: errorCode where "errorClosedCriticalStream = 0x104"
definition errorFrameUnexpected :: errorCode where "errorFrameUnexpected = 0x105"
definition errorFrameError :: errorCode where "errorFrameError = 0x106"
definition errorExcessiveLoad :: errorCode where "errorExcessiveLoad = 0x107"
definition errorIDError :: errorCode where "errorIDError = 0x108"
definition errorSettingsError :: errorCode where "errorSettingsError = 0x109"
definition errorMissingSettings :: errorCode where "errorMissingSettings = 0x10a"
definition errorRequestRejected :: errorCode where "errorRequestRejected = 0x10b"
definition errorRequestCanceled :: errorCode where "errorRequestCanceled = 0x10c"
definition errorRequestIncomplete :: errorCode where "errorRequestIncomplete = 0x10d"
definition errorMessageError :: errorCode where "errorMessageError = 0x10e"
definition errorConnectError :: errorCode where "errorConnectError = 0x10f"
definition errorVersionFallback :: errorCode where "errorVersionFallback = 0x110"
definition errorWebTransportBufferedStreamRejected :: errorCode where
  "errorWebTransportBufferedStreamRejected = 0x3994bd84"

text \<open>\<^verbatim>\<open>func (e errorCode) String() string\<close>; \<open>None\<close> stands for the default branch, which
  formats the number.\<close>

definition errorCode_String :: "errorCode \<Rightarrow> string option" where
  "errorCode_String e =
     (if e = errorNoError then Some ''H3_NO_ERROR''
      else if e = errorGeneralProtocolError then Some ''H3_GENERAL_PROTOCOL_ERROR''
      else if e = errorInternalError then Some ''H3_INTERNAL_ERROR''
      else if e = errorStreamCreationError then Some ''H3_STREAM_CREATION_ERROR''
      else if e = errorClosedCriticalStream then Some ''H3_CLOSED_CRITICAL_STREAM''
      else if e = errorFrameUnexpected then Some ''H3_FRAME_UNEXPECTED''
      else if e = errorFrameError then Some ''H3_FRAME_ERROR''
      else if e = errorExcessiveLoad then Some ''H3_EXCESSIVE_LOAD''
      else if e = errorIDError then Some ''H3_ID_ERROR''
      else if e = errorSettingsError then Some ''H3_SETTINGS_ERROR''
      else if e = errorMissingSettings then Some ''H3_MISSING_SETTINGS''
      else if e = errorRequestRejected then Some ''H3_REQUEST_REJECTED''
      else if e = errorRequestCanceled then Some ''H3_REQUEST_CANCELLED''
      else if e = errorRequestIncomplete then Some ''H3_INCOMPLETE_REQUEST''
      else if e = errorMessageError then Some ''H3_MESSAGE_ERROR''
      else if e = errorConnectError then Some ''H3_CONNECT_ERROR''
      else if e = errorVersionFallback then Some ''H3_VERSION_FALLBACK''
      else if e = errorWebTransportBufferedStreamRejected
        then Some ''H3_WEBTRANSPORT_BUFFERED_STREAM_REJECTED''
      else None)"

text \<open>
  Frame types are unsigned 64-bit integers (\<^verbatim>\<open>FrameType\<close>).

  \<^verbatim>\<open>FrameTypeError{Want, Type}\<close> and \<^verbatim>\<open>FrameLengthError{Type, Len, Max}\<close> are the two structured
  errors of errors.go; \<open>EOF\<close> is \<^verbatim>\<open>io.EOF\<close>; every other error value (\<^verbatim>\<open>errors.New\<close>, transport
  errors) is \<open>OtherError\<close> with its text; \<open>ApplicationError\<close> is \<^verbatim>\<open>quic.ApplicationError\<close>.
\<close>

type_synonym FrameType = "64 word"

datatype error =
    FrameTypeError (Want: FrameType) (Type: FrameType)
  | FrameLengthError FrameType "64 word" "64 word"
  | ApplicationError errorCode string
  | EOF
  | OtherError string


section \<open>Frame types, stream types and settings\<close>

text \<open>
  Modelled from the spec: the declarations of the frame types, of the stream types and of the
  setting identifiers (frames.go, streams.go, settings.go) are not among the sources at hand.
  The values are those of section 3 of the specification. For H3_DATAGRAM and for the
  WebTransport setting the specification gives no number; the identifiers of the drafts are
  used, and no theorem below depends on them.
\<close>

definition FrameTypeData :: FrameType where "FrameTypeData = 0x0"
definition FrameTypeHeaders :: FrameType where "FrameTypeHeaders = 0x1"
definition FrameTypeSettings :: FrameType where "FrameTypeSettings = 0x4"
definition FrameTypeWebTransportStream :: FrameType where "FrameTypeWebTransportStream = 0x41"

type_synonym StreamType = "64 word"

definition StreamTypeControl :: StreamType where "StreamTypeControl = 0x00"
definition StreamTypePush :: StreamType where "StreamTypePush = 0x01"
definition StreamTypeQPACKEncoder :: StreamType where "StreamTypeQPACKEncoder = 0x02"
definition StreamTypeQPACKDecoder :: StreamType where "StreamTypeQPACKDecoder = 0x03"
definition StreamTypeWebTransportStream :: StreamType where "StreamTypeWebTransportStream = 0x54"

text \<open>
  \<^verbatim>\<open>type Settings map[Setting]uint64\<close>. Reading a key that is absent, or reading from the nil
  map, gives 0 in Go (\<open>setting\<close>); the two-result form \<^verbatim>\<open>v, ok := s[k]\<close> is the map
  application itself. The nil map is \<open>Map.empty\<close>.
\<close>

type_synonym Settings = "64 word \<rightharpoonup> 64 word"

definition SettingMaxFieldSectionSize :: "64 word" where "SettingMaxFieldSectionSize = 0x6"
definition SettingDatagram :: "64 word" where "SettingDatagram = 0x276"
definition SettingWebTransport :: "64 word" where "SettingWebTransport = 0x2b603742"

definition setting :: "Settings \<Rightarrow> 64 word \<Rightarrow> 64 word" where
  "setting s k = (case s k of None \<Rightarrow> 0 | Some v \<Rightarrow> v)"

text \<open>
  Modelled from the spec: the helpers \<^verbatim>\<open>DatagramsEnabled\<close>, \<^verbatim>\<open>EnableDatagrams\<close> and
  \<^verbatim>\<open>WebTransportEnabled\<close> of the settings codec (section 4.2) are not among the sources; the
  tests enable a setting by storing the value 1 (\<^verbatim>\<open>Settings{SettingDatagram: 1}\<close>).
\<close>

definition DatagramsEnabled :: "Settings \<Rightarrow> bool" where
  "DatagramsEnabled s = (setting s SettingDatagram = 1)"

definition EnableDatagrams :: "Settings \<Rightarrow> Settings" where
  "EnableDatagrams s = s(SettingDatagram \<mapsto> 1)"

definition WebTransportEnabled :: "Settings \<Rightarrow> bool" where
  "WebTransportEnabled s = (setting s SettingWebTransport = 1)"

text \<open>
  Modelled from the spec: \<^verbatim>\<open>isClientBidi\<close> is not among the sources. A WebTransport session
  id must be a client-initiated bidirectional stream id: its low two bits are 0.
\<close>

definition isClientBidi :: "64 word \<Rightarrow> bool" where
  "isClientBidi sessionID = (sessionID AND 3 = 0)"

text \<open>
  Modelled from the spec: \<^verbatim>\<open>readSettings\<close> (settings codec) is not among the sources. It reads
  the first frame of the stream; a failure to read the frame header is returned as it is, a
  frame that is not SETTINGS is a \<open>FrameTypeError\<close>, and otherwise the result is that of
  decoding the payload (strict at the frame boundary). \<open>first_frame\<close> is what the stream
  delivers: a failed read, or the type of the frame with the outcome of decoding its
  payload as settings. The result is Go's pair \<^verbatim>\<open>(Settings, error)\<close>.
\<close>

datatype first_frame =
    NextFailed error
  | FrameRead FrameType "error + Settings"

definition readSettings :: "first_frame \<Rightarrow> Settings \<times> error option" where
  "readSettings fr =
     (case fr of
        NextFailed e \<Rightarrow> (Map.empty, Some e)
      | FrameRead t payload \<Rightarrow>
          if t \<noteq> FrameTypeSettings then (Map.empty, Some (FrameTypeError FrameTypeSettings t))
          else (case payload of
                  Inl e \<Rightarrow> (Map.empty, Some e)
                | Inr s \<Rightarrow> (s, None)))"

section \<open>The connection (conn.go)\<close>

text \<open>
  A QUIC stream is a handle, and so is a channel that is only ever closed. What the code
  does to the session, to streams and to channels is recorded as a list of events, in the
  order of the calls. The description of a connection close is kept symbolic where the
  source formats it (\<^verbatim>\<open>err.Error()\<close>, \<^verbatim>\<open>fmt.Sprintf\<close>). \<open>HeaderField\<close> is
  \<^verbatim>\<open>qpack.HeaderField\<close>, a name and a value.
\<close>

type_synonym stream = nat

datatype desc =
    Text string
  | ErrorText error
  | MoreThanOneOpened StreamType
  | SpuriousFromClient StreamType

text \<open>The peer-settings latch as a reader observes it (section 3 of the specification).\<close>

datatype latch = Pending | Ready Settings | Failed error

datatype HeaderField = HeaderField (Name: string) (Value: string)

type_synonym chan = nat

datatype event =
    CloseWithError errorCode desc
  | CancelRead stream errorCode
  | CancelWrite stream errorCode
  | StreamClose stream
  | WriteControlStream stream Settings
  | WriteRequestHeaders stream bool
  | GoWriteRequestBody stream
  | ClosePeerSettingsDone latch
  | CloseChan chan
  | CallOnTrailers "error + HeaderField list"
  | SendBlocked stream
  | Panic string

datatype Perspective = PerspectiveServer | PerspectiveClient

text \<open>
  The part of \<^verbatim>\<open>quic.EarlySession\<close> that conn.go reads: \<^verbatim>\<open>Perspective()\<close>,
  \<^verbatim>\<open>ConnectionState().SupportsDatagrams\<close>, and \<^verbatim>\<open>Context()\<close> (\<open>None\<close> while the session is
  alive, \<open>Some err\<close> once its context is done).
\<close>

record quic_session =
  perspective :: Perspective
  SupportsDatagrams :: bool
  ContextErr :: "error option"

text \<open>
  \<^verbatim>\<open>type connection struct\<close>. \<open>peerSettingsDone\<close> is true once the channel is closed.
  \<open>peerStreams\<close> is the array \<^verbatim>\<open>[4]quic.ReceiveStream\<close>, a list of length 4 with \<open>None\<close> for
  nil; the source indexes it below 4 only. A buffered channel
  is the list of the values it holds; the three tables are maps from the session id
  (the datagram table is left out: no operation below touches it).
\<close>

record connection =
  session :: quic_session
  settings :: Settings
  peerSettingsDone :: bool
  peerSettings :: Settings
  peerSettingsErr :: "error option"
  peerStreams :: "stream option list"
  incomingRequestStreams :: "(stream \<times> FrameType \<times> 64 word) list"
  incomingStreams :: "64 word \<rightharpoonup> stream list"
  incomingUniStreams :: "64 word \<rightharpoonup> stream list"

definition maxBufferedStreams :: nat where "maxBufferedStreams = 10"

text \<open>
  \<^verbatim>\<open>newConn\<close>: nil settings become the empty map, with H3_DATAGRAM enabled when the session
  supports datagrams; the control stream is opened (\<open>opened\<close> is the result of
  \<^verbatim>\<open>OpenUniStream\<close>) and the stream type and the SETTINGS frame are written to it.
\<close>

definition newConn ::
  "quic_session \<Rightarrow> Settings option \<Rightarrow> error + stream \<Rightarrow> (error + connection) \<times> event list" where
  "newConn s settings0 opened =
     (let settings1 =
            (case settings0 of
               None \<Rightarrow> if SupportsDatagrams s then EnableDatagrams Map.empty else Map.empty
             | Some st \<Rightarrow> st)
      in case opened of
           Inl err \<Rightarrow> (Inl err, [])
         | Inr str \<Rightarrow>
             (Inr \<lparr> session = s, settings = settings1, peerSettingsDone = False,
                    peerSettings = Map.empty, peerSettingsErr = None,
                    peerStreams = replicate 4 None, incomingRequestStreams = [],
                    incomingStreams = Map.empty, incomingUniStreams = Map.empty \<rparr>,
              [WriteControlStream str settings1]))"

text \<open>
  \<^verbatim>\<open>PeerSettings\<close>: a select over the latch and the session context, with a default. When
  both channels are ready Go picks one of them at random: \<open>pickLatch\<close> is that choice.
\<close>

definition PeerSettings :: "connection \<Rightarrow> bool \<Rightarrow> Settings \<times> error option" where
  "PeerSettings conn pickLatch =
     (if peerSettingsDone conn \<and> (ContextErr (session conn) = None \<or> pickLatch)
        then (peerSettings conn, peerSettingsErr conn)
      else (case ContextErr (session conn) of
              Some err \<Rightarrow> (Map.empty, Some err)
            | None \<Rightarrow> (Map.empty, None)))"

definition latchOf :: "connection \<Rightarrow> latch" where
  "latchOf conn =
     (if \<not> peerSettingsDone conn then Pending
      else (case peerSettingsErr conn of
              None \<Rightarrow> Ready (peerSettings conn)
            | Some err \<Rightarrow> Failed err))"

text \<open>\<^verbatim>\<open>const defaultMaxFieldSectionSize = 16 << 20\<close>; \<^verbatim>\<open>http.DefaultMaxHeaderBytes\<close> is the
  constant \<^verbatim>\<open>1 << 20\<close> of Go's net/http.\<close>

definition defaultMaxFieldSectionSize :: "64 word" where
  "defaultMaxFieldSectionSize = push_bit 20 16"

definition http_DefaultMaxHeaderBytes :: "64 word" where
  "http_DefaultMaxHeaderBytes = push_bit 20 1"

definition maxHeaderBytes :: "connection \<Rightarrow> 64 word" where
  "maxHeaderBytes conn =
     (let m = setting (settings conn) SettingMaxFieldSectionSize in
      if m > 0 then m else defaultMaxFieldSectionSize)"

definition peerMaxHeaderBytes :: "connection \<Rightarrow> bool \<Rightarrow> 64 word" where
  "peerMaxHeaderBytes conn pickLatch =
     (let ps = fst (PeerSettings conn pickLatch) in
      case ps SettingMaxFieldSectionSize of
        Some m \<Rightarrow> if m > 0 then m else http_DefaultMaxHeaderBytes
      | None \<Rightarrow> http_DefaultMaxHeaderBytes)"

text \<open>
  \<^verbatim>\<open>incomingStreamsChan\<close> and \<^verbatim>\<open>incomingUniStreamsChan\<close>: the channel of a session id,
  created empty on first use. The result is the connection (with the channel in its table)
  and what the channel holds.
\<close>

definition incomingStreamsChan :: "connection \<Rightarrow> 64 word \<Rightarrow> connection \<times> stream list" where
  "incomingStreamsChan conn sessionID =
     (case incomingStreams conn sessionID of
        None \<Rightarrow> (conn\<lparr>incomingStreams := (incomingStreams conn)(sessionID \<mapsto> [])\<rparr>, [])
      | Some q \<Rightarrow> (conn, q))"

definition incomingUniStreamsChan :: "connection \<Rightarrow> 64 word \<Rightarrow> connection \<times> stream list" where
  "incomingUniStreamsChan conn sessionID =
     (case incomingUniStreams conn sessionID of
        None \<Rightarrow> (conn\<lparr>incomingUniStreams := (incomingUniStreams conn)(sessionID \<mapsto> [])\<rparr>, [])
      | Some q \<Rightarrow> (conn, q))"

text \<open>
  \<^verbatim>\<open>handleControlStream\<close>. \<open>fr\<close> is what the control stream delivers to \<^verbatim>\<open>readSettings\<close>.
  The event of closing \<^verbatim>\<open>peerSettingsDone\<close> carries what a reader woken by the close
  observes at that moment. Closing a channel twice panics in Go.
\<close>

definition handleControlStream :: "connection \<Rightarrow> first_frame \<Rightarrow> connection \<times> event list" where
  "handleControlStream conn fr =
     (let (s, e) = readSettings fr;
          conn1 = conn\<lparr>peerSettings := s, peerSettingsErr := e\<rparr>
      in if peerSettingsDone conn1 then (conn1, [Panic ''close of closed channel''])
         else
           let conn2 = conn1\<lparr>peerSettingsDone := True\<rparr>;
               released = ClosePeerSettingsDone (latchOf conn2)
           in case peerSettingsErr conn2 of
                Some err \<Rightarrow>
                  (conn2, [released, CloseWithError errorMissingSettings (ErrorText err)])
              | None \<Rightarrow>
                  if DatagramsEnabled (peerSettings conn2)
                     \<and> \<not> SupportsDatagrams (session conn2)
                  then (conn2\<lparr>peerSettingsErr :=
                                 Some (ApplicationError errorSettingsError
                                         ''missing QUIC Datagram support'')\<rparr>,
                        [released,
                         CloseWithError errorSettingsError
                           (Text ''missing QUIC Datagram support'')])
                  else (conn2, [released]))"

text \<open>
  What reading a peer-initiated unidirectional stream yields: the leading varint (the stream
  type), the second varint (the session id, read on WebTransport streams only), and the
  first frame (read on the control stream only).
\<close>

record uniStreamData =
  streamTypeRead :: "error + 64 word"
  sessionIDRead :: "error + 64 word"
  controlFirstFrame :: first_frame

text \<open>
  \<^verbatim>\<open>handleIncomingUniStream\<close>. The swap of the slot of \<open>peerStreams\<close> happens under the mutex,
  so it is one step. A non-blocking send (\<^verbatim>\<open>select\<close> with \<^verbatim>\<open>default\<close>) goes through when the
  channel holds fewer than \<open>maxBufferedStreams\<close> values. The control-stream reader, a
  goroutine of its own in the source, runs here at once.
\<close>

definition handleIncomingUniStream ::
  "connection \<Rightarrow> stream \<Rightarrow> uniStreamData \<Rightarrow> connection \<times> event list" where
  "handleIncomingUniStream conn str d =
     (case streamTypeRead d of
        Inl err \<Rightarrow> (conn, [CancelRead str errorGeneralProtocolError])
      | Inr streamType \<Rightarrow>
          let prevPeerStream =
                (if streamType < 4 then peerStreams conn ! unat streamType else None);
              conn1 =
                (if streamType < 4
                 then conn\<lparr>peerStreams := (peerStreams conn)[unat streamType := Some str]\<rparr>
                 else conn)
          in if streamType < 4 \<and> prevPeerStream \<noteq> None
             then (conn1, [CloseWithError errorStreamCreationError (MoreThanOneOpened streamType)])
             else if streamType = StreamTypeControl
             then handleControlStream conn1 (controlFirstFrame d)
             else if streamType = StreamTypePush
             then (if perspective (session conn1) = PerspectiveServer
                   then (conn1, [CloseWithError errorStreamCreationError
                                   (SpuriousFromClient streamType)])
                   else (conn1, [CloseWithError errorIDError (Text ''MAX_PUSH_ID = 0'')]))
             else if streamType = StreamTypeQPACKEncoder \<or> streamType = StreamTypeQPACKDecoder
             then (conn1, [])
             else if streamType = StreamTypeWebTransportStream
             then (if \<not> WebTransportEnabled (settings conn1)
                   then (conn1, [CancelRead str errorSettingsError])
                   else (case sessionIDRead d of
                           Inl err \<Rightarrow> (conn1, [CancelRead str errorGeneralProtocolError])
                         | Inr sessionID \<Rightarrow>
                             if \<not> isClientBidi sessionID
                             then (conn1, [CancelRead str errorIDError])
                             else
                               let (conn2, q) = incomingUniStreamsChan conn1 sessionID
                               in if length q < maxBufferedStreams
                                  then (conn2\<lparr>incomingUniStreams :=
                                                (incomingUniStreams conn2)
                                                  (sessionID \<mapsto> q @ [str])\<rparr>, [])
                                  else (conn2,
                                        [CancelRead str
                                           errorWebTransportBufferedStreamRejected])))
             else (conn1, [CancelRead str errorStreamCreationError]))"

text \<open>
  \<^verbatim>\<open>handleIncomingUniStreams\<close>: the accept loop, over the streams the session delivers until
  \<^verbatim>\<open>AcceptUniStream\<close> fails. The result keeps the events of each stream apart, in the order of
  acceptance.
\<close>

fun handleIncomingUniStreams ::
  "connection \<Rightarrow> (stream \<times> uniStreamData) list \<Rightarrow> connection \<times> event list list" where
  "handleIncomingUniStreams conn [] = (conn, [])"
| "handleIncomingUniStreams conn ((str, d) # rest) =
     (let (conn1, evs) = handleIncomingUniStream conn str d;
          (conn2, evss) = handleIncomingUniStreams conn1 rest
      in (conn2, evs # evss))"

text \<open>
  \<^verbatim>\<open>handleIncomingStream\<close>: the loop over the frames of an accepted bidirectional stream.
  \<open>frames\<close> are the headers (type and length \<^verbatim>\<open>fr.N\<close>) that \<^verbatim>\<open>fr.Next()\<close> reads with success;
  after the last of them \<^verbatim>\<open>Next\<close> fails. The send to \<open>incomingRequestStreams\<close> is a blocking
  one on a channel of capacity \<open>maxBufferedStreams\<close>: it goes through when the channel holds
  fewer values, and when the channel is full the goroutine waits for a receiver, which is
  the event \<open>SendBlocked\<close> (nothing is appended, and the handler does not go on).
\<close>

fun handleIncomingStream ::
  "connection \<Rightarrow> stream \<Rightarrow> (FrameType \<times> 64 word) list \<Rightarrow> connection \<times> event list" where
  "handleIncomingStream conn str [] = (conn, [CancelWrite str errorRequestIncomplete])"
| "handleIncomingStream conn str ((frType, frN) # frames) =
     (if frType = FrameTypeHeaders
      then (if length (incomingRequestStreams conn) < maxBufferedStreams
            then (conn\<lparr>incomingRequestStreams :=
                         incomingRequestStreams conn @ [(str, frType, frN)]\<rparr>, [])
            else (conn, [SendBlocked str]))
      else if frType = FrameTypeWebTransportStream
      then (if \<not> WebTransportEnabled (settings conn)
            then (conn, [CancelRead str errorSettingsError, CancelWrite str errorSettingsError])
            else
              let sessionID = frN;
                  evs = (if \<not> isClientBidi sessionID
                         then [CancelRead str errorIDError, CancelWrite str errorIDError]
                         else []);
                  (conn1, q) = incomingStreamsChan conn sessionID
              in if length q < maxBufferedStreams
                 then (conn1\<lparr>incomingStreams :=
                               (incomingStreams conn1)(sessionID \<mapsto> q @ [str])\<rparr>, evs)
                 else (conn1,
                       evs @ [CancelRead str errorWebTransportBufferedStreamRejected,
                              CancelWrite str errorWebTransportBufferedStreamRejected]))
      else if frType = FrameTypeData
      then (conn, [CloseWithError errorFrameUnexpected
                     (ErrorText (FrameTypeError FrameTypeHeaders frType))])
      else handleIncomingStream conn str frames)"

text \<open>The events that close \<^verbatim>\<open>peerSettingsDone\<close>.\<close>

fun isClosePeerSettingsDone :: "event \<Rightarrow> bool" where
  "isClosePeerSettingsDone (ClosePeerSettingsDone l) = True"
| "isClosePeerSettingsDone ev = False"

text \<open>
  The events that are a panic, and the invariant that ties the latch to the table of peer
  streams: once \<^verbatim>\<open>peerSettingsDone\<close> is closed, the slot of the control stream is taken.
\<close>

fun isPanic :: "event \<Rightarrow> bool" where
  "isPanic (Panic msg) = True"
| "isPanic ev = False"

definition latchInv :: "connection \<Rightarrow> bool" where
  "latchInv conn = (length (peerStreams conn) = 4
                    \<and> (peerSettingsDone conn \<longrightarrow> peerStreams conn ! 0 \<noteq> None))"

section \<open>The body of a request or response (http3/body.go)\<close>

text \<open>
  \<^verbatim>\<open>type body struct\<close>. \<open>reqDone\<close> is \<open>None\<close> for the nil channel (a request body);
  \<open>onTrailers\<close> tells whether the callback is set, and calling it is an event.
\<close>

record body =
  body_str :: stream
  reqDone :: "chan option"
  reqDoneClosed :: bool
  onTrailers :: bool

definition newRequestBody :: "stream \<Rightarrow> bool \<Rightarrow> body" where
  "newRequestBody s cb =
     \<lparr> body_str = s, reqDone = None, reqDoneClosed = False, onTrailers = cb \<rparr>"

definition newResponseBody :: "stream \<Rightarrow> bool \<Rightarrow> chan \<Rightarrow> body" where
  "newResponseBody s cb done =
     \<lparr> body_str = s, reqDone = Some done, reqDoneClosed = False, onTrailers = cb \<rparr>"

definition requestDone :: "body \<Rightarrow> body \<times> event list" where
  "requestDone r =
     (case reqDone r of
        None \<Rightarrow> (r, [])
      | Some ch \<Rightarrow>
          if reqDoneClosed r then (r, [])
          else (r\<lparr>reqDoneClosed := True\<rparr>, [CloseChan ch]))"

text \<open>
  \<^verbatim>\<open>Read\<close>: \<open>rd\<close> is what \<^verbatim>\<open>r.str.DataReader().Read(p)\<close> returns, the count and the error;
  \<open>trailers\<close> is what \<^verbatim>\<open>r.str.ReadHeaders()\<close> returns if it is called. The result is the
  body and the pair \<^verbatim>\<open>(n, err)\<close>.
\<close>

definition body_Read ::
  "body \<Rightarrow> nat \<times> error option \<Rightarrow> error + HeaderField list
     \<Rightarrow> (body \<times> nat \<times> error option) \<times> event list" where
  "body_Read r rd trailers =
     (case snd rd of
        None \<Rightarrow> ((r, rd), [])
      | Some e \<Rightarrow>
          let evs1 = (if e = EOF \<and> onTrailers r then [CallOnTrailers trailers] else []);
              (r1, evs2) = requestDone r
          in ((r1, rd), evs1 @ evs2))"

text \<open>\<^verbatim>\<open>Close\<close>; the second component is the returned error, \<open>None\<close> for nil.\<close>

definition body_Close :: "body \<Rightarrow> (body \<times> error option) \<times> event list" where
  "body_Close r =
     (let (r1, evs) = requestDone r
      in ((r1, None), evs @ [CancelRead (body_str r1) errorRequestCanceled]))"

text \<open>Any sequence of calls of \<^verbatim>\<open>Read\<close> and \<^verbatim>\<open>Close\<close> on one body.\<close>

datatype body_call = CallRead "nat \<times> error option" "error + HeaderField list" | CallClose

fun body_calls :: "body \<Rightarrow> body_call list \<Rightarrow> body \<times> event list" where
  "body_calls r [] = (r, [])"
| "body_calls r (CallRead rd trailers # cs) =
     (let (res, evs1) = body_Read r rd trailers;
          (r2, evs2) = body_calls (fst res) cs
      in (r2, evs1 @ evs2))"
| "body_calls r (CallClose # cs) =
     (let (res, evs1) = body_Close r;
          (r2, evs2) = body_calls (fst res) cs
      in (r2, evs1 @ evs2))"

fun isCloseChan :: "event \<Rightarrow> bool" where
  "isCloseChan (CloseChan ch) = True"
| "isCloseChan ev = False"

section \<open>Go library functions used by the client\<close>

text \<open>
  \<^verbatim>\<open>strconv.ParseInt(s, 10, 64)\<close> of Go's library: an optional sign, then one or more decimal
  digits, and the value must fit 64 bits signed. \<open>parseDigits\<close> is the loop of
  \<^verbatim>\<open>strconv.ParseUint\<close> in base 10: it reads the bytes from the left, fails with a syntax error
  at a byte that is not a digit, and with a range error as soon as the value no longer fits
  64 bits unsigned (the bytes after that point are not looked at). \<^verbatim>\<open>strconv.Atoi(s)\<close> is
  the same function where \<^verbatim>\<open>int\<close> has 64 bits. The value that Go returns beside an error is
  not used by the client, so a result is the error or the value.
\<close>

datatype NumError = ErrSyntax | ErrRange

definition digitValue :: "char \<Rightarrow> nat option" where
  "digitValue c =
     (let k = (of_char c :: nat) in if 48 \<le> k \<and> k \<le> 57 then Some (k - 48) else None)"

fun parseDigits :: "nat \<Rightarrow> string \<Rightarrow> NumError + nat" where
  "parseDigits acc [] = Inr acc"
| "parseDigits acc (c # cs) =
     (case digitValue c of
        None \<Rightarrow> Inl ErrSyntax
      | Some d \<Rightarrow>
          if acc * 10 + d \<ge> 2 ^ 64 then Inl ErrRange
          else parseDigits (acc * 10 + d) cs)"

definition ParseInt :: "string \<Rightarrow> NumError + int" where
  "ParseInt s0 =
     (if s0 = [] then Inl ErrSyntax
      else
        let neg = (hd s0 = CHR ''-'');
            s = (if hd s0 = CHR ''+'' \<or> hd s0 = CHR ''-'' then tl s0 else s0)
        in if s = [] then Inl ErrSyntax
           else (case parseDigits 0 s of
                   Inl err \<Rightarrow> Inl err
                 | Inr un \<Rightarrow>
                     if \<not> neg \<and> un \<ge> 2 ^ 63 then Inl ErrRange
                     else if neg \<and> un > 2 ^ 63 then Inl ErrRange
                     else Inr (if neg then - int un else int un)))"

definition Atoi :: "string \<Rightarrow> NumError + int" where
  "Atoi s = ParseInt s"

text \<open>
  \<^verbatim>\<open>http.Header\<close> is \<^verbatim>\<open>map[string][]string\<close>. \<^verbatim>\<open>Add\<close>, \<^verbatim>\<open>Get\<close> and \<^verbatim>\<open>Del\<close> use the canonical form
  of the key (\<^verbatim>\<open>textproto.CanonicalMIMEHeaderKey\<close>): a key made of token characters only has
  its first letter and every letter after a hyphen in upper case and the others in lower
  case; any other key is left as it is.
\<close>

type_synonym Header = "string \<rightharpoonup> string list"

definition validHeaderFieldByte :: "char \<Rightarrow> bool" where
  "validHeaderFieldByte c =
     (let k = (of_char c :: nat) in
        (48 \<le> k \<and> k \<le> 57) \<or> (65 \<le> k \<and> k \<le> 90) \<or> (97 \<le> k \<and> k \<le> 122)
        \<or> c \<in> set ''!#$%&*+-.^_`|~'' \<or> k = 39)"

definition upperByte :: "char \<Rightarrow> char" where
  "upperByte c =
     (let k = (of_char c :: nat) in if 97 \<le> k \<and> k \<le> 122 then char_of (k - 32) else c)"

definition lowerByte :: "char \<Rightarrow> char" where
  "lowerByte c =
     (let k = (of_char c :: nat) in if 65 \<le> k \<and> k \<le> 90 then char_of (k + 32) else c)"

fun canonicalLoop :: "bool \<Rightarrow> string \<Rightarrow> string" where
  "canonicalLoop upper [] = []"
| "canonicalLoop upper (c # cs) =
     (let c1 = (if upper then upperByte c else lowerByte c)
      in c1 # canonicalLoop (c1 = CHR ''-'') cs)"

definition CanonicalMIMEHeaderKey :: "string \<Rightarrow> string" where
  "CanonicalMIMEHeaderKey s =
     (if list_all validHeaderFieldByte s then canonicalLoop True s else s)"

definition Header_Add :: "Header \<Rightarrow> string \<Rightarrow> string \<Rightarrow> Header" where
  "Header_Add h key v =
     (let k = CanonicalMIMEHeaderKey key
      in h(k \<mapsto> (case h k of None \<Rightarrow> [] | Some vs \<Rightarrow> vs) @ [v]))"

definition Header_Get :: "Header \<Rightarrow> string \<Rightarrow> string" where
  "Header_Get h key =
     (case h (CanonicalMIMEHeaderKey key) of
        None \<Rightarrow> []
      | Some vs \<Rightarrow> (case vs of [] \<Rightarrow> [] | v # rest \<Rightarrow> v))"

definition Header_Del :: "Header \<Rightarrow> string \<Rightarrow> Header" where
  "Header_Del h key = h(CanonicalMIMEHeaderKey key := None)"

text \<open>How many closes of \<open>reqDone\<close> a body can still issue.\<close>

definition closesLeft :: "body \<Rightarrow> nat" where
  "closesLeft r = (if reqDoneClosed r \<or> reqDone r = None then 0 else 1)"

section \<open>The client (client.go)\<close>

text \<open>
  The part of \<^verbatim>\<open>http.Request\<close> that the client reads: the method, the host, the header,
  whether there is a body (\<^verbatim>\<open>req.Body != nil\<close>) and the number of trailers.
  The part of \<^verbatim>\<open>http.Response\<close> that the client fills in; \<open>ContentLength\<close> is an \<^verbatim>\<open>int64\<close>
  with Go's zero value 0 while it is not set, and the body is the response body as it is
  or wrapped in the gzip reader. The TLS connection state, copied from the session, is
  left out.
\<close>

record Request =
  Method :: string
  Host :: string
  req_Header :: Header
  req_hasBody :: bool
  req_lenTrailer :: nat

datatype ResponseBody = NoBody | ResponseBody body | GzipReader body

record Response =
  Proto :: string
  ProtoMajor :: int
  Header :: Header
  StatusCode :: int
  Status :: string
  ContentLength :: int
  Uncompressed :: bool
  Body :: ResponseBody

text \<open>
  \<^verbatim>\<open>type client struct\<close>: the fields that \<^verbatim>\<open>RoundTrip\<close> and \<^verbatim>\<open>doRequest\<close> read. \<open>dialed\<close> tells
  that \<^verbatim>\<open>dialOnce\<close> has run.
\<close>

record client =
  authority :: string
  disableCompression :: bool
  dialed :: bool
  handshakeErr :: "error option"

definition MethodGet0RTT :: string where "MethodGet0RTT = ''GET_0RTT''"

text \<open>Modelled from the spec: the name of the pseudo-header, whose declaration is not among
  the sources.\<close>

definition pseudoHeaderStatus :: string where "pseudoHeaderStatus = '':status''"

text \<open>
  What the request stream and the header codec deliver during one exchange: the error (or
  nil) of \<^verbatim>\<open>RequestHeaders(req)\<close> and of \<^verbatim>\<open>str.WriteHeaders\<close>, the header lists that the
  successive calls of \<^verbatim>\<open>str.ReadHeaders()\<close> return, and the error that the call after the
  last of them returns (the stream has ended or was reset).
\<close>

record exchange =
  requestHeadersErr :: "error option"
  writeHeadersErr :: "error option"
  responseHeaders :: "HeaderField list list"
  readHeadersErr :: error

text \<open>
  \<^verbatim>\<open>writeRequest\<close>. Sending the body and the trailers is a goroutine of its own in the source;
  starting it is an event, and \<open>writeRequestBody\<close> is what it does, given the error (or nil)
  of \<^verbatim>\<open>io.Copy\<close> and of writing the trailers.
\<close>

definition writeRequest ::
  "stream \<Rightarrow> Request \<Rightarrow> bool \<Rightarrow> exchange \<Rightarrow> error option \<times> event list" where
  "writeRequest s req requestGzip x =
     (case requestHeadersErr x of
        Some e \<Rightarrow> (Some e, [])
      | None \<Rightarrow>
          (case writeHeadersErr x of
             Some e \<Rightarrow> (Some e, [WriteRequestHeaders s requestGzip])
           | None \<Rightarrow>
               if \<not> req_hasBody req \<and> req_lenTrailer req = 0
               then (if Method req \<noteq> ''CONNECT''
                     then (None, [WriteRequestHeaders s requestGzip, StreamClose s])
                     else (None, [WriteRequestHeaders s requestGzip]))
               else (None, [WriteRequestHeaders s requestGzip, GoWriteRequestBody s])))"

definition writeRequestBody ::
  "stream \<Rightarrow> Request \<Rightarrow> error option \<Rightarrow> error option \<Rightarrow> event list" where
  "writeRequestBody s req copyErr trailersErr =
     (if copyErr \<noteq> None then [CancelWrite s errorRequestCanceled]
      else if req_lenTrailer req > 0 \<and> trailersErr \<noteq> None
      then [CancelWrite s errorRequestCanceled]
      else if Method req \<noteq> ''CONNECT'' then [StreamClose s]
      else [])"

text \<open>
  The inner loop of \<^verbatim>\<open>doRequest\<close>, over the fields of one HEADERS frame. It updates the
  header of the response and the locals \<^verbatim>\<open>statusCode\<close> and \<^verbatim>\<open>status\<close>. \<open>StatusText\<close> is
  \<^verbatim>\<open>http.StatusText\<close>, the table of reason phrases of Go's library, taken as a parameter;
  the source applies it to \<^verbatim>\<open>res.StatusCode\<close>.
\<close>

fun fieldsLoop ::
  "(int \<Rightarrow> string) \<Rightarrow> stream \<Rightarrow> HeaderField list \<Rightarrow> Response \<Rightarrow> int \<Rightarrow> string
     \<Rightarrow> (error + Response \<times> int \<times> string) \<times> event list" where
  "fieldsLoop StatusText s [] res statusCode status = (Inr (res, statusCode, status), [])"
| "fieldsLoop StatusText s (hf # hfs) res statusCode status =
     (if Name hf = pseudoHeaderStatus
      then (case Atoi (Value hf) of
              Inl err \<Rightarrow>
                (Inl (OtherError ''invalid or missing :status header''),
                 [CancelWrite s errorMessageError])
            | Inr k \<Rightarrow>
                fieldsLoop StatusText s hfs res k
                  (Value hf @ '' '' @ StatusText (StatusCode res)))
      else fieldsLoop StatusText s hfs
             (res\<lparr>Header := Header_Add (Header res) (Name hf) (Value hf)\<rparr>)
             statusCode status)"

text \<open>
  The outer loop of \<^verbatim>\<open>doRequest\<close>: HEADERS frames are read until one carries a status that
  is not interim. \<open>frames\<close> and \<open>final\<close> are \<open>responseHeaders\<close> and \<open>readHeadersErr\<close> of the
  exchange. A stream that delivers interim responses without end keeps the source in the
  loop; such a stream is not a value of \<open>exchange\<close>.
\<close>

fun responseLoop ::
  "(int \<Rightarrow> string) \<Rightarrow> stream \<Rightarrow> HeaderField list list \<Rightarrow> error \<Rightarrow> Response
     \<Rightarrow> (error + Response) \<times> event list" where
  "responseLoop StatusText s [] final res = (Inl final, [])"
| "responseLoop StatusText s (headers # frames) final res =
     (case fieldsLoop StatusText s headers res 0 [] of
        (Inl err, evs) \<Rightarrow> (Inl err, evs)
      | (Inr (res1, statusCode, status), evs) \<Rightarrow>
          if statusCode < 100 \<or> statusCode \<ge> 200
          then (Inr (res1\<lparr>StatusCode := statusCode, Status := status\<rparr>), evs)
          else responseLoop StatusText s frames final res1)"

definition doRequest ::
  "(int \<Rightarrow> string) \<Rightarrow> client \<Rightarrow> stream \<Rightarrow> Request \<Rightarrow> chan \<Rightarrow> exchange
     \<Rightarrow> (error + Response) \<times> event list" where
  "doRequest StatusText c s req done x =
     (let requestGzip =
            (\<not> disableCompression c \<and> Method req \<noteq> ''HEAD''
             \<and> Header_Get (req_Header req) ''Accept-Encoding'' = []
             \<and> Header_Get (req_Header req) ''Range'' = []);
          (werr, evs1) = writeRequest s req requestGzip x
      in case werr of
           Some err \<Rightarrow> (Inl err, evs1)
         | None \<Rightarrow>
             (case responseLoop StatusText s (responseHeaders x) (readHeadersErr x)
                     \<lparr> Proto = ''HTTP/3'', ProtoMajor = 3, Header = Map.empty,
                       StatusCode = 0, Status = [], ContentLength = 0,
                       Uncompressed = False, Body = NoBody \<rparr> of
                (Inl err, evs2) \<Rightarrow> (Inl err, evs1 @ evs2)
              | (Inr res, evs2) \<Rightarrow>
                  let respBody = newResponseBody s True done;
                      hasTransferEncoding = (Header res ''Transfer-Encoding'' \<noteq> None);
                      isInformational = (StatusCode res \<ge> 100 \<and> StatusCode res < 200);
                      isNoContent = (StatusCode res = 204);
                      isSuccessfulConnect =
                        (Method req = ''CONNECT'' \<and> StatusCode res \<ge> 200
                         \<and> StatusCode res < 300);
                      res1 =
                        (if \<not> hasTransferEncoding \<and> \<not> isInformational \<and> \<not> isNoContent
                            \<and> \<not> isSuccessfulConnect
                         then res\<lparr>ContentLength :=
                                    (case Header res ''Content-Length'' of
                                       Some [v] \<Rightarrow>
                                         (case ParseInt v of
                                            Inr clen64 \<Rightarrow> clen64
                                          | Inl err \<Rightarrow> -1)
                                     | _ \<Rightarrow> -1)\<rparr>
                         else res);
                      res2 =
                        (if requestGzip \<and> Header_Get (Header res1) ''Content-Encoding'' = ''gzip''
                         then res1\<lparr>Header := Header_Del
                                               (Header_Del (Header res1) ''Content-Encoding'')
                                               ''Content-Length'',
                                   ContentLength := -1,
                                   Body := GzipReader respBody,
                                   Uncompressed := True\<rparr>
                         else res1\<lparr>Body := ResponseBody respBody\<rparr>)
                  in (Inr res2, evs1 @ evs2)))"

text \<open>
  \<^verbatim>\<open>dial\<close>: \<open>dialErr\<close> is the error (or nil) of the dialer and \<open>openErr\<close> that of \<^verbatim>\<open>Open\<close>.
\<close>

definition dial :: "error option \<Rightarrow> error option \<Rightarrow> error option \<times> event list" where
  "dial dialErr openErr =
     (case dialErr of
        Some err \<Rightarrow> (Some err, [])
      | None \<Rightarrow>
          (case openErr of
             Some err \<Rightarrow> (Some err, [CloseWithError errorInternalError (Text [])])
           | None \<Rightarrow> (None, [])))"

text \<open>
  What \<^verbatim>\<open>RoundTrip\<close> meets outside the client: the authority computed from the request
  (\<^verbatim>\<open>authorityAddr("https", hostnameFromRequest(req))\<close>), the outcome of dialling, the error
  of the request context if the wait for the handshake ends by it, the result of
  \<^verbatim>\<open>OpenRequestStream\<close>, the channel that \<^verbatim>\<open>make\<close> returns, and the exchange on the stream.
\<close>

record roundTripEnv =
  requestAuthority :: string
  dialErr :: "error option"
  openErr :: "error option"
  contextErr :: "error option"
  openRequestStream :: "error + stream"
  newChan :: chan
  onStream :: exchange

text \<open>
  \<^verbatim>\<open>RoundTrip\<close>. The goroutine that resets the stream when the request context is cancelled
  runs beside it and is not part of its trace. The result is the client, Go's pair of the
  response and the error as a sum, and the events.
\<close>

definition RoundTrip ::
  "(int \<Rightarrow> string) \<Rightarrow> client \<Rightarrow> Request \<Rightarrow> roundTripEnv
     \<Rightarrow> client \<times> (error + Response) \<times> event list" where
  "RoundTrip StatusText c req env =
     (if requestAuthority env \<noteq> authority c
      then (c, Inl (OtherError
                     (''http3 client BUG: RoundTrip called for the wrong client (expected ''
                      @ authority c @ '', got '' @ Host req @ '')'')), [])
      else
        let (c1, evs0) =
              (if dialed c then (c, [])
               else (let (herr, evs) = dial (dialErr env) (openErr env)
                     in (c\<lparr>dialed := True, handshakeErr := herr\<rparr>, evs)))
        in case handshakeErr c1 of
             Some err \<Rightarrow> (c1, Inl err, evs0)
           | None \<Rightarrow>
               let req1 = (if Method req = MethodGet0RTT then req\<lparr>Method := ''GET''\<rparr>
                           else req);
                   waitErr = (if Method req = MethodGet0RTT then None else contextErr env)
               in case waitErr of
                    Some err \<Rightarrow> (c1, Inl err, evs0)
                  | None \<Rightarrow>
                      (case openRequestStream env of
                         Inl err \<Rightarrow> (c1, Inl err, evs0)
                       | Inr s \<Rightarrow>
                           let done = newChan env;
                               (res, evs1) = doRequest StatusText c1 s req1 done (onStream env)
                           in case res of
                                Inr r \<Rightarrow> (c1, Inr r, evs0 @ evs1)
                              | Inl err \<Rightarrow>
                                  (c1, Inl err,
                                   evs0 @ evs1 @ [CloseChan done] @
                                   (case err of
                                      FrameTypeError w t \<Rightarrow>
                                        [CloseWithError errorFrameUnexpected (ErrorText err)]
                                    | FrameLengthError t l m \<Rightarrow>
                                        [CancelWrite s errorFrameError]
                                    | _ \<Rightarrow> [CancelWrite s errorGeneralProtocolError]))))"

text \<open>The three actions by which \<^verbatim>\<open>RoundTrip\<close> answers an error of \<^verbatim>\<open>doRequest\<close> on stream
  \<open>s\<close>.\<close>

fun isErrorAction :: "stream \<Rightarrow> event \<Rightarrow> bool" where
  "isErrorAction s (CloseWithError code d) = (code = errorFrameUnexpected)"
| "isErrorAction s (CancelWrite s' code) =
     (s' = s \<and> (code = errorFrameError \<or> code = errorGeneralProtocolError))"
| "isErrorAction s ev = False"

text \<open>
  Reference notions for the statements about the response. A HEADERS frame has a malformed
  status when one of its \<^verbatim>\<open>:status\<close> fields has a value that \<^verbatim>\<open>strconv.Atoi\<close> rejects.
  \<open>frameStatus\<close> is the status code that a frame carries: the value of its last \<^verbatim>\<open>:status\<close>
  field, \<open>k\<close> (0 in the client) when it has none, and \<open>None\<close> when the status is malformed.
  A frame is an interim response when it carries a status code from 100 to 199.
  \<open>receivedHeader\<close> collects the fields other than \<^verbatim>\<open>:status\<close> of a list of frames, in the
  order of arrival, into a header.
\<close>

definition malformedStatus :: "HeaderField list \<Rightarrow> bool" where
  "malformedStatus headers =
     list_ex (\<lambda>hf. Name hf = pseudoHeaderStatus \<and> isl (Atoi (Value hf))) headers"

fun frameStatus :: "HeaderField list \<Rightarrow> int \<Rightarrow> int option" where
  "frameStatus [] k = Some k"
| "frameStatus (hf # hfs) k =
     (if Name hf = pseudoHeaderStatus
      then (case Atoi (Value hf) of
              Inl err \<Rightarrow> None
            | Inr j \<Rightarrow> frameStatus hfs j)
      else frameStatus hfs k)"

definition interimResponse :: "HeaderField list \<Rightarrow> bool" where
  "interimResponse headers =
     (case frameStatus headers 0 of
        None \<Rightarrow> False
      | Some k \<Rightarrow> 100 \<le> k \<and> k < 200)"

fun addFields :: "Header \<Rightarrow> HeaderField list \<Rightarrow> Header" where
  "addFields h [] = h"
| "addFields h (hf # hfs) =
     addFields (if Name hf = pseudoHeaderStatus then h
                else Header_Add h (Name hf) (Value hf)) hfs"

definition receivedHeader :: "HeaderField list list \<Rightarrow> Header" where
  "receivedHeader frames = addFields Map.empty (concat frames)"

section \<open>Theorems\<close>

lemmas errorCode_defs =

  errorNoError_def errorGeneralProtocolError_def errorInternalError_def
  errorStreamCreationError_def errorClosedCriticalStream_def errorFrameUnexpected_def
  errorFrameError_def errorExcessiveLoad_def errorIDError_def errorSettingsError_def
  errorMissingSettings_def errorRequestRejected_def errorRequestCanceled_def
  errorRequestIncomplete_def errorMessageError_def errorConnectError_def
  errorVersionFallback_def errorWebTransportBufferedStreamRejected_def


text \<open>
  C9. The HTTP/3 error-code constants have exactly the values of the specification's table:
  NO_ERROR=0x100, GENERAL_PROTOCOL_ERROR=0x101, INTERNAL_ERROR=0x102,
  STREAM_CREATION_ERROR=0x103, CLOSED_CRITICAL_STREAM=0x104, FRAME_UNEXPECTED=0x105,
  FRAME_ERROR=0x106, EXCESSIVE_LOAD=0x107, ID_ERROR=0x108, SETTINGS_ERROR=0x109,
  MISSING_SETTINGS=0x10a, REQUEST_REJECTED=0x10b, REQUEST_CANCELED=0x10c,
  REQUEST_INCOMPLETE=0x10d, MESSAGE_ERROR=0x10e, CONNECT_ERROR=0x10f, VERSION_FALLBACK=0x110,
  WEBTRANSPORT_BUFFERED_STREAM_REJECTED=0x3994bd84. The right-hand sides are the same numbers
  in decimal.
\<close>

theorem error_code_values:
  "unat errorNoError = 256 \<and> unat errorGeneralProtocolError = 257
   \<and> unat errorInternalError = 258 \<and> unat errorStreamCreationError = 259
   \<and> unat errorClosedCriticalStream = 260 \<and> unat errorFrameUnexpected = 261
   \<and> unat errorFrameError = 262 \<and> unat errorExcessiveLoad = 263
   \<and> unat errorIDError = 264 \<and> unat errorSettingsError = 265
   \<and> unat errorMissingSettings = 266 \<and> unat errorRequestRejected = 267
   \<and> unat errorRequestCanceled = 268 \<and> unat errorRequestIncomplete = 269
   \<and> unat errorMessageError = 270 \<and> unat errorConnectError = 271
   \<and> unat errorVersionFallback = 272
   \<and> unat errorWebTransportBufferedStreamRejected = 966049156"
  by (simp add: errorCode_defs)


lemmas type_defs = FrameTypeData_def FrameTypeHeaders_def FrameTypeSettings_def
  FrameTypeWebTransportStream_def StreamTypeControl_def StreamTypePush_def
  StreamTypeQPACKEncoder_def StreamTypeQPACKDecoder_def StreamTypeWebTransportStream_def

subsection \<open>Limits on the field section size\<close>

text \<open>
  C4, as stated, fails for the limit derived from the peer's settings: with the peer's
  SETTINGS received and MAX_FIELD_SECTION_SIZE absent from them, \<open>peerMaxHeaderBytes\<close> is
  \<^verbatim>\<open>http.DefaultMaxHeaderBytes\<close>, 1 MiB, and not 16 MiB.
\<close>

theorem peer_default_counterexample:
  "unat (peerMaxHeaderBytes
      \<lparr> session = \<lparr> perspective = PerspectiveClient, SupportsDatagrams = False,
                    ContextErr = None \<rparr>,
        settings = Map.empty, peerSettingsDone = True, peerSettings = Map.empty,
        peerSettingsErr = None, peerStreams = [Some 3, None, None, None],
        incomingRequestStreams = [], incomingStreams = Map.empty,
        incomingUniStreams = Map.empty \<rparr> True) = 1048576
   \<and> (1048576::nat) \<noteq> 16 * 1024 * 1024"
  by (simp add: peerMaxHeaderBytes_def PeerSettings_def http_DefaultMaxHeaderBytes_def)

text \<open>
  C4, amended. When MAX_FIELD_SECTION_SIZE is absent from the local settings or zero there,
  the limit derived from them (\<open>maxHeaderBytes\<close>) is 16 MiB. The limit derived from the peer
  (\<open>peerMaxHeaderBytes\<close>) is 1 MiB while the peer's settings have not arrived (the latch is
  not released), whatever is stored in the connection, and also when the select of
  \<open>PeerSettings\<close> takes the session context instead of the latch; once the latch is released
  and read, it is 1 MiB when the setting is absent from the peer's settings or zero there.
  A value that is present and not zero is the limit, on both sides.
\<close>

theorem max_header_bytes_defaults:
  "(setting (settings conn) SettingMaxFieldSectionSize = 0 \<longrightarrow>
      unat (maxHeaderBytes conn) = 16 * 1024 * 1024)
   \<and> (setting (settings conn) SettingMaxFieldSectionSize \<noteq> 0 \<longrightarrow>
      maxHeaderBytes conn = setting (settings conn) SettingMaxFieldSectionSize)
   \<and> (setting (fst (PeerSettings conn pick)) SettingMaxFieldSectionSize = 0 \<longrightarrow>
      unat (peerMaxHeaderBytes conn pick) = 1024 * 1024)
   \<and> (setting (fst (PeerSettings conn pick)) SettingMaxFieldSectionSize \<noteq> 0 \<longrightarrow>
      peerMaxHeaderBytes conn pick
        = setting (fst (PeerSettings conn pick)) SettingMaxFieldSectionSize)
   \<and> (\<not> peerSettingsDone conn \<longrightarrow> unat (peerMaxHeaderBytes conn pick) = 1024 * 1024)
   \<and> (ContextErr (session conn) \<noteq> None \<and> \<not> pick \<longrightarrow>
      unat (peerMaxHeaderBytes conn pick) = 1024 * 1024)
   \<and> (peerSettingsDone conn \<and> (ContextErr (session conn) = None \<or> pick) \<longrightarrow>
      (setting (peerSettings conn) SettingMaxFieldSectionSize = 0 \<longrightarrow>
         unat (peerMaxHeaderBytes conn pick) = 1024 * 1024)
      \<and> (setting (peerSettings conn) SettingMaxFieldSectionSize \<noteq> 0 \<longrightarrow>
         peerMaxHeaderBytes conn pick
           = setting (peerSettings conn) SettingMaxFieldSectionSize))"
proof -
  have local: "(setting (settings conn) SettingMaxFieldSectionSize = 0 \<longrightarrow>
      unat (maxHeaderBytes conn) = 16 * 1024 * 1024)
   \<and> (setting (settings conn) SettingMaxFieldSectionSize \<noteq> 0 \<longrightarrow>
      maxHeaderBytes conn = setting (settings conn) SettingMaxFieldSectionSize)"
    by (auto simp add: maxHeaderBytes_def setting_def Let_def defaultMaxFieldSectionSize_def
        word_greater_zero_iff split: option.splits)
  have view: "(setting (fst (PeerSettings conn pick)) SettingMaxFieldSectionSize = 0 \<longrightarrow>
      unat (peerMaxHeaderBytes conn pick) = 1024 * 1024)
   \<and> (setting (fst (PeerSettings conn pick)) SettingMaxFieldSectionSize \<noteq> 0 \<longrightarrow>
      peerMaxHeaderBytes conn pick
        = setting (fst (PeerSettings conn pick)) SettingMaxFieldSectionSize)"
    by (auto simp add: peerMaxHeaderBytes_def setting_def Let_def
        http_DefaultMaxHeaderBytes_def word_greater_zero_iff split: option.splits)
  have pending: "\<not> peerSettingsDone conn \<longrightarrow> unat (peerMaxHeaderBytes conn pick) = 1024 * 1024"
    by (auto simp add: peerMaxHeaderBytes_def PeerSettings_def Let_def
        http_DefaultMaxHeaderBytes_def split: option.splits)
  have ctx: "ContextErr (session conn) \<noteq> None \<and> \<not> pick \<longrightarrow>
      unat (peerMaxHeaderBytes conn pick) = 1024 * 1024"
    by (auto simp add: peerMaxHeaderBytes_def PeerSettings_def Let_def
        http_DefaultMaxHeaderBytes_def split: option.splits)
  have released: "peerSettingsDone conn \<and> (ContextErr (session conn) = None \<or> pick) \<longrightarrow>
      (setting (peerSettings conn) SettingMaxFieldSectionSize = 0 \<longrightarrow>
         unat (peerMaxHeaderBytes conn pick) = 1024 * 1024)
      \<and> (setting (peerSettings conn) SettingMaxFieldSectionSize \<noteq> 0 \<longrightarrow>
         peerMaxHeaderBytes conn pick
           = setting (peerSettings conn) SettingMaxFieldSectionSize)"
    using view by (auto simp add: PeerSettings_def)
  show ?thesis using local view pending ctx released by blast
qed

theorem max_header_bytes_defaults_witness:
  "unat (maxHeaderBytes
      \<lparr> session = \<lparr> perspective = PerspectiveClient, SupportsDatagrams = False,
                    ContextErr = None \<rparr>,
        settings = [SettingMaxFieldSectionSize \<mapsto> 0], peerSettingsDone = True,
        peerSettings = [SettingMaxFieldSectionSize \<mapsto> 4096],
        peerSettingsErr = None, peerStreams = [Some 3, None, None, None],
        incomingRequestStreams = [], incomingStreams = Map.empty,
        incomingUniStreams = Map.empty \<rparr>) = 16 * 1024 * 1024
   \<and> peerMaxHeaderBytes
      \<lparr> session = \<lparr> perspective = PerspectiveClient, SupportsDatagrams = False,
                    ContextErr = None \<rparr>,
        settings = [SettingMaxFieldSectionSize \<mapsto> 0], peerSettingsDone = True,
        peerSettings = [SettingMaxFieldSectionSize \<mapsto> 4096],
        peerSettingsErr = None, peerStreams = [Some 3, None, None, None],
        incomingRequestStreams = [], incomingStreams = Map.empty,
        incomingUniStreams = Map.empty \<rparr> True = 4096
   \<and> unat (peerMaxHeaderBytes
      \<lparr> session = \<lparr> perspective = PerspectiveClient, SupportsDatagrams = False,
                    ContextErr = None \<rparr>,
        settings = Map.empty, peerSettingsDone = False,
        peerSettings = [SettingMaxFieldSectionSize \<mapsto> 4096],
        peerSettingsErr = None, peerStreams = [Some 3, None, None, None],
        incomingRequestStreams = [], incomingStreams = Map.empty,
        incomingUniStreams = Map.empty \<rparr> True) = 1024 * 1024"
  using max_header_bytes_defaults
    [of "\<lparr> session = \<lparr> perspective = PerspectiveClient, SupportsDatagrams = False,
                    ContextErr = None \<rparr>,
        settings = [SettingMaxFieldSectionSize \<mapsto> 0], peerSettingsDone = True,
        peerSettings = [SettingMaxFieldSectionSize \<mapsto> 4096],
        peerSettingsErr = None, peerStreams = [Some 3, None, None, None],
        incomingRequestStreams = [], incomingStreams = Map.empty,
        incomingUniStreams = Map.empty \<rparr>" True]
    max_header_bytes_defaults
    [of "\<lparr> session = \<lparr> perspective = PerspectiveClient, SupportsDatagrams = False,
                    ContextErr = None \<rparr>,
        settings = Map.empty, peerSettingsDone = False,
        peerSettings = [SettingMaxFieldSectionSize \<mapsto> 4096],
        peerSettingsErr = None, peerStreams = [Some 3, None, None, None],
        incomingRequestStreams = [], incomingStreams = Map.empty,
        incomingUniStreams = Map.empty \<rparr>" True]
  by (simp add: setting_def PeerSettings_def)

subsection \<open>The control stream\<close>

text \<open>
  C3, at an input where the claim and the code part: the local settings do not enable
  H3_DATAGRAM, the peer's SETTINGS frame enables it, and the QUIC session does not support
  datagrams. The control-stream reader closes the connection with SETTINGS_ERROR and the
  reason "missing QUIC Datagram support": the condition of the source reads the peer's
  settings only.
\<close>

theorem datagram_close_without_local_support:
  "\<not> DatagramsEnabled Map.empty
   \<and> snd (handleControlStream
      \<lparr> session = \<lparr> perspective = PerspectiveClient, SupportsDatagrams = False,
                    ContextErr = None \<rparr>,
        settings = Map.empty, peerSettingsDone = False, peerSettings = Map.empty,
        peerSettingsErr = None, peerStreams = [Some 3, None, None, None],
        incomingRequestStreams = [], incomingStreams = Map.empty,
        incomingUniStreams = Map.empty \<rparr>
      (FrameRead FrameTypeSettings (Inr [SettingDatagram \<mapsto> 1])))
     = [ClosePeerSettingsDone (Ready [SettingDatagram \<mapsto> 1]),
        CloseWithError errorSettingsError (Text ''missing QUIC Datagram support'')]"
  by (simp add: handleControlStream_def readSettings_def DatagramsEnabled_def setting_def
      latchOf_def)

lemma readSettings_ok_iff:
  "(snd (readSettings fr) = None) = (\<exists>s. fr = FrameRead FrameTypeSettings (Inr s))"
  by (auto simp add: readSettings_def split: first_frame.splits sum.splits)

lemma readSettings_ok: "readSettings (FrameRead FrameTypeSettings (Inr s)) = (s, None)"
  by (simp add: readSettings_def)

text \<open>
  C6, as stated, fails for its second half: the first frame of the control stream is a
  SETTINGS frame that is read and decoded with success, and yet the latch does not end in
  the Ready state. Both sides enable H3_DATAGRAM and the QUIC session does not support
  datagrams: after the release the reader stores the SETTINGS_ERROR in \<open>peerSettingsErr\<close>,
  so the latch is Failed and \<open>PeerSettings\<close> returns the error.
\<close>

theorem latch_failed_after_settings_counterexample:
  "latchOf (fst (handleControlStream
      \<lparr> session = \<lparr> perspective = PerspectiveClient, SupportsDatagrams = False,
                    ContextErr = None \<rparr>,
        settings = [SettingDatagram \<mapsto> 1], peerSettingsDone = False,
        peerSettings = Map.empty,
        peerSettingsErr = None, peerStreams = [Some 3, None, None, None],
        incomingRequestStreams = [], incomingStreams = Map.empty,
        incomingUniStreams = Map.empty \<rparr>
      (FrameRead FrameTypeSettings (Inr [SettingDatagram \<mapsto> 1]))))
     = Failed (ApplicationError errorSettingsError ''missing QUIC Datagram support'')
   \<and> snd (PeerSettings (fst (handleControlStream
      \<lparr> session = \<lparr> perspective = PerspectiveClient, SupportsDatagrams = False,
                    ContextErr = None \<rparr>,
        settings = [SettingDatagram \<mapsto> 1], peerSettingsDone = False,
        peerSettings = Map.empty,
        peerSettingsErr = None, peerStreams = [Some 3, None, None, None],
        incomingRequestStreams = [], incomingStreams = Map.empty,
        incomingUniStreams = Map.empty \<rparr>
      (FrameRead FrameTypeSettings (Inr [SettingDatagram \<mapsto> 1])))) True)
     = Some (ApplicationError errorSettingsError ''missing QUIC Datagram support'')"
  by (simp add: handleControlStream_def readSettings_def DatagramsEnabled_def setting_def
      latchOf_def PeerSettings_def)

text \<open>
  C6, amended. On a connection whose latch is pending, the control-stream reader closes
  \<open>peerSettingsDone\<close> exactly once, and the channel is closed when the reader is done.
  If the first frame is not a SETTINGS frame that was read and decoded with success, the
  error is stored, the latch is Failed with it, the connection is closed with
  MISSING_SETTINGS, and nothing else is done. Otherwise the parsed settings are stored and
  there is no close with MISSING_SETTINGS; the latch is released in the Ready state and
  stays Ready, with nothing else done, when the peer's settings do not enable H3_DATAGRAM
  or the QUIC session supports datagrams; when both sides enable H3_DATAGRAM and the
  session does not support datagrams, the connection is closed with SETTINGS_ERROR and the
  latch ends Failed with that error.
\<close>

theorem control_stream_latch:
  assumes pending: "\<not> peerSettingsDone conn"
  shows "peerSettingsDone (fst (handleControlStream conn fr))
       \<and> length (filter isClosePeerSettingsDone (snd (handleControlStream conn fr))) = 1
       \<and> ((\<forall>s. fr \<noteq> FrameRead FrameTypeSettings (Inr s)) \<longrightarrow>
            (\<exists>err. snd (handleControlStream conn fr) =
                     [ClosePeerSettingsDone (Failed err),
                      CloseWithError errorMissingSettings (ErrorText err)]
                  \<and> peerSettingsErr (fst (handleControlStream conn fr)) = Some err
                  \<and> latchOf (fst (handleControlStream conn fr)) = Failed err))
       \<and> (\<forall>s. fr = FrameRead FrameTypeSettings (Inr s) \<longrightarrow>
            peerSettings (fst (handleControlStream conn fr)) = s
            \<and> (\<forall>d. CloseWithError errorMissingSettings d
                      \<notin> set (snd (handleControlStream conn fr)))
            \<and> (\<not> DatagramsEnabled s \<or> SupportsDatagrams (session conn) \<longrightarrow>
                  snd (handleControlStream conn fr) = [ClosePeerSettingsDone (Ready s)]
                  \<and> peerSettingsErr (fst (handleControlStream conn fr)) = None
                  \<and> latchOf (fst (handleControlStream conn fr)) = Ready s
                  \<and> PeerSettings (fst (handleControlStream conn fr)) True = (s, None))
            \<and> (DatagramsEnabled (settings conn) \<and> DatagramsEnabled s
                 \<and> \<not> SupportsDatagrams (session conn) \<longrightarrow>
                  snd (handleControlStream conn fr)
                    = [ClosePeerSettingsDone (Ready s),
                       CloseWithError errorSettingsError
                         (Text ''missing QUIC Datagram support'')]
                  \<and> latchOf (fst (handleControlStream conn fr))
                      = Failed (ApplicationError errorSettingsError
                                  ''missing QUIC Datagram support'')))"
proof (intro conjI impI allI)
  show "peerSettingsDone (fst (handleControlStream conn fr))"
    using pending
    by (cases "readSettings fr")
       (auto simp add: handleControlStream_def Let_def split: option.splits)
  show "length (filter isClosePeerSettingsDone (snd (handleControlStream conn fr))) = 1"
    using pending
    by (cases "readSettings fr")
       (auto simp add: handleControlStream_def Let_def split: option.splits)
next
  assume bad: "\<forall>s. fr \<noteq> FrameRead FrameTypeSettings (Inr s)"
  then obtain err where e: "snd (readSettings fr) = Some err"
    using readSettings_ok_iff [of fr] by auto
  then have "readSettings fr = (fst (readSettings fr), Some err)"
    by (metis prod.collapse)
  then show "\<exists>err. snd (handleControlStream conn fr) =
                     [ClosePeerSettingsDone (Failed err),
                      CloseWithError errorMissingSettings (ErrorText err)]
                  \<and> peerSettingsErr (fst (handleControlStream conn fr)) = Some err
                  \<and> latchOf (fst (handleControlStream conn fr)) = Failed err"
    using pending
    by (auto simp add: handleControlStream_def latchOf_def Let_def split: prod.splits)
next
  fix s assume ok: "fr = FrameRead FrameTypeSettings (Inr s)"
  show "peerSettings (fst (handleControlStream conn fr)) = s"
    using pending by (simp add: ok handleControlStream_def readSettings_ok Let_def)
  show "CloseWithError errorMissingSettings d \<notin> set (snd (handleControlStream conn fr))" for d
    using pending
    by (simp add: ok handleControlStream_def readSettings_ok errorSettingsError_def Let_def
        errorMissingSettings_def)
  {
    assume quiet: "\<not> DatagramsEnabled s \<or> SupportsDatagrams (session conn)"
    then have q: "\<not> (DatagramsEnabled s \<and> \<not> SupportsDatagrams (session conn))" by blast
    have h: "handleControlStream conn fr
               = (conn\<lparr>peerSettings := s, peerSettingsErr := None, peerSettingsDone := True\<rparr>,
                  [ClosePeerSettingsDone (Ready s)])"
      using pending q
      by (simp add: ok handleControlStream_def readSettings_ok latchOf_def Let_def)
    show "snd (handleControlStream conn fr) = [ClosePeerSettingsDone (Ready s)]"
      by (simp add: h)
    show "peerSettingsErr (fst (handleControlStream conn fr)) = None"
      by (simp add: h)
    show "latchOf (fst (handleControlStream conn fr)) = Ready s"
      by (simp add: h latchOf_def)
    show "PeerSettings (fst (handleControlStream conn fr)) True = (s, None)"
      by (simp add: h PeerSettings_def)
  }
  {
    assume both: "DatagramsEnabled (settings conn) \<and> DatagramsEnabled s
                 \<and> \<not> SupportsDatagrams (session conn)"
    have h: "handleControlStream conn fr
               = (conn\<lparr>peerSettings := s,
                       peerSettingsErr :=
                         Some (ApplicationError errorSettingsError
                                 ''missing QUIC Datagram support''),
                       peerSettingsDone := True\<rparr>,
                  [ClosePeerSettingsDone (Ready s),
                   CloseWithError errorSettingsError (Text ''missing QUIC Datagram support'')])"
      using pending both
      by (simp add: ok handleControlStream_def readSettings_ok latchOf_def Let_def)
    show "snd (handleControlStream conn fr)
            = [ClosePeerSettingsDone (Ready s),
               CloseWithError errorSettingsError (Text ''missing QUIC Datagram support'')]"
      by (simp add: h)
    show "latchOf (fst (handleControlStream conn fr))
            = Failed (ApplicationError errorSettingsError ''missing QUIC Datagram support'')"
      by (simp add: h latchOf_def)
  }
qed

theorem control_stream_latch_witness:
  "handleControlStream
      \<lparr> session = \<lparr> perspective = PerspectiveClient, SupportsDatagrams = False,
                    ContextErr = None \<rparr>,
        settings = Map.empty, peerSettingsDone = False,
        peerSettings = Map.empty,
        peerSettingsErr = None, peerStreams = [Some 3, None, None, None],
        incomingRequestStreams = [], incomingStreams = Map.empty,
        incomingUniStreams = Map.empty \<rparr>
      (FrameRead FrameTypeData (Inr Map.empty))
     = (\<lparr> session = \<lparr> perspective = PerspectiveClient, SupportsDatagrams = False,
                    ContextErr = None \<rparr>,
        settings = Map.empty, peerSettingsDone = True,
        peerSettings = Map.empty,
        peerSettingsErr = Some (FrameTypeError FrameTypeSettings FrameTypeData),
        peerStreams = [Some 3, None, None, None],
        incomingRequestStreams = [], incomingStreams = Map.empty,
        incomingUniStreams = Map.empty \<rparr>,
        [ClosePeerSettingsDone (Failed (FrameTypeError FrameTypeSettings FrameTypeData)),
         CloseWithError errorMissingSettings
           (ErrorText (FrameTypeError FrameTypeSettings FrameTypeData))])
   \<and> handleControlStream
      \<lparr> session = \<lparr> perspective = PerspectiveClient, SupportsDatagrams = False,
                    ContextErr = None \<rparr>,
        settings = Map.empty, peerSettingsDone = False,
        peerSettings = Map.empty,
        peerSettingsErr = None, peerStreams = [Some 3, None, None, None],
        incomingRequestStreams = [], incomingStreams = Map.empty,
        incomingUniStreams = Map.empty \<rparr>
      (FrameRead FrameTypeSettings (Inr [SettingMaxFieldSectionSize \<mapsto> 4096]))
     = (\<lparr> session = \<lparr> perspective = PerspectiveClient, SupportsDatagrams = False,
                    ContextErr = None \<rparr>,
        settings = Map.empty, peerSettingsDone = True,
        peerSettings = [SettingMaxFieldSectionSize \<mapsto> 4096],
        peerSettingsErr = None, peerStreams = [Some 3, None, None, None],
        incomingRequestStreams = [], incomingStreams = Map.empty,
        incomingUniStreams = Map.empty \<rparr>,
        [ClosePeerSettingsDone (Ready [SettingMaxFieldSectionSize \<mapsto> 4096])])
   \<and> latchOf \<lparr> session = \<lparr> perspective = PerspectiveClient, SupportsDatagrams = False,
                    ContextErr = None \<rparr>,
        settings = Map.empty, peerSettingsDone = True,
        peerSettings = [SettingMaxFieldSectionSize \<mapsto> 4096],
        peerSettingsErr = None, peerStreams = [Some 3, None, None, None],
        incomingRequestStreams = [], incomingStreams = Map.empty,
        incomingUniStreams = Map.empty \<rparr> = Ready [SettingMaxFieldSectionSize \<mapsto> 4096]"
  using control_stream_latch
    [of "\<lparr> session = \<lparr> perspective = PerspectiveClient, SupportsDatagrams = False,
                    ContextErr = None \<rparr>,
        settings = Map.empty, peerSettingsDone = False,
        peerSettings = Map.empty,
        peerSettingsErr = None, peerStreams = [Some 3, None, None, None],
        incomingRequestStreams = [], incomingStreams = Map.empty,
        incomingUniStreams = Map.empty \<rparr>"
        "FrameRead FrameTypeData (Inr Map.empty)"]
    control_stream_latch
    [of "\<lparr> session = \<lparr> perspective = PerspectiveClient, SupportsDatagrams = False,
                    ContextErr = None \<rparr>,
        settings = Map.empty, peerSettingsDone = False,
        peerSettings = Map.empty,
        peerSettingsErr = None, peerStreams = [Some 3, None, None, None],
        incomingRequestStreams = [], incomingStreams = Map.empty,
        incomingUniStreams = Map.empty \<rparr>"
        "FrameRead FrameTypeSettings (Inr [SettingMaxFieldSectionSize \<mapsto> 4096])"]
  by (simp add: handleControlStream_def readSettings_def type_defs latchOf_def
      DatagramsEnabled_def setting_def SettingDatagram_def SettingMaxFieldSectionSize_def)

subsection \<open>WebTransport streams\<close>

text \<open>
  C1, at an input where the claim and the code part: on a connection with WebTransport
  enabled, a bidirectional stream opens with a WEBTRANSPORT_STREAM frame whose session id is
  1, which is not a client-initiated bidirectional stream id. The stream is reset with
  ID_ERROR in both directions, and is then, all the same, sent to the channel of session
  id 1.
\<close>

theorem invalid_session_id_still_delivered:
  "\<not> isClientBidi 1
   \<and> handleIncomingStream
      \<lparr> session = \<lparr> perspective = PerspectiveServer, SupportsDatagrams = False,
                    ContextErr = None \<rparr>,
        settings = [SettingWebTransport \<mapsto> 1], peerSettingsDone = False,
        peerSettings = Map.empty, peerSettingsErr = None,
        peerStreams = [None, None, None, None],
        incomingRequestStreams = [], incomingStreams = Map.empty,
        incomingUniStreams = Map.empty \<rparr>
      7 [(FrameTypeWebTransportStream, 1)]
     = (\<lparr> session = \<lparr> perspective = PerspectiveServer, SupportsDatagrams = False,
                      ContextErr = None \<rparr>,
          settings = [SettingWebTransport \<mapsto> 1], peerSettingsDone = False,
          peerSettings = Map.empty, peerSettingsErr = None,
          peerStreams = [None, None, None, None],
          incomingRequestStreams = [], incomingStreams = [1 \<mapsto> [7]],
          incomingUniStreams = Map.empty \<rparr>,
        [CancelRead 7 errorIDError, CancelWrite 7 errorIDError])"
  by (simp add: type_defs isClientBidi_def WebTransportEnabled_def setting_def
      incomingStreamsChan_def maxBufferedStreams_def)

text \<open>
  What does hold on these paths: the unidirectional path rejects a session id that is not a
  client-initiated bidirectional stream id and delivers nothing, and on both paths the
  channels of the other session ids are left as they were.
\<close>

lemma uni_invalid_session_id_rejected:
  assumes "streamTypeRead d = Inr StreamTypeWebTransportStream"
    and "WebTransportEnabled (settings conn)"
    and "sessionIDRead d = Inr sessionID" and "\<not> isClientBidi sessionID"
  shows "handleIncomingUniStream conn str d = (conn, [CancelRead str errorIDError])"
  using assms by (simp add: handleIncomingUniStream_def type_defs)

lemma uni_valid_session_id_delivered:
  assumes "streamTypeRead d = Inr StreamTypeWebTransportStream"
    and "WebTransportEnabled (settings conn)"
    and "sessionIDRead d = Inr sessionID" and "isClientBidi sessionID"
    and "other \<noteq> sessionID"
  shows "incomingUniStreams (fst (handleIncomingUniStream conn str d)) other
           = incomingUniStreams conn other"
    and "incomingStreams (fst (handleIncomingUniStream conn str d)) = incomingStreams conn"
  using assms
  by (simp_all add: handleIncomingUniStream_def type_defs incomingUniStreamsChan_def
      Let_def split: option.splits)

lemma bidi_session_id_delivered:
  assumes "WebTransportEnabled (settings conn)" and "other \<noteq> sessionID"
  shows "incomingStreams
           (fst (handleIncomingStream conn str ((FrameTypeWebTransportStream, sessionID) # frames)))
           other
         = incomingStreams conn other"
  using assms
  by (simp add: type_defs incomingStreamsChan_def Let_def split: option.splits)

subsection \<open>Peer-initiated unidirectional streams\<close>

lemma handleControlStream_peerStreams:
  "peerStreams (fst (handleControlStream conn fr)) = peerStreams conn"
  by (cases "readSettings fr")
     (simp add: handleControlStream_def Let_def split: option.splits)

lemma handleControlStream_no_creation_error:
  "CloseWithError errorStreamCreationError d \<notin> set (snd (handleControlStream conn fr))"
  by (cases "readSettings fr")
     (simp add: handleControlStream_def Let_def errorCode_defs split: option.splits)

lemma handleIncomingUniStream_peerStreams:
  "peerStreams (fst (handleIncomingUniStream conn str d)) =
     (case streamTypeRead d of
        Inl err \<Rightarrow> peerStreams conn
      | Inr t \<Rightarrow> if t < 4 then (peerStreams conn)[unat t := Some str] else peerStreams conn)"
proof (cases "streamTypeRead d")
  case (Inl e)
  then show ?thesis by (simp add: handleIncomingUniStream_def)
next
  case (Inr t)
  show ?thesis
  proof (cases "t < 4")
    case True
    then show ?thesis
      using Inr
      by (simp add: handleIncomingUniStream_def Let_def handleControlStream_peerStreams
          incomingUniStreamsChan_def case_prod_beta split: sum.splits option.splits)
  next
    case False
    then show ?thesis
      using Inr
      by (simp add: handleIncomingUniStream_def Let_def handleControlStream_peerStreams
          incomingUniStreamsChan_def case_prod_beta split: sum.splits option.splits)
  qed
qed

lemma unat_less_4: "(t :: 64 word) < 4 \<Longrightarrow> unat t < 4"
  by (simp add: word_less_nat_alt)

lemma handleIncomingUniStream_length:
  "length (peerStreams (fst (handleIncomingUniStream conn str d))) = length (peerStreams conn)"
  by (simp add: handleIncomingUniStream_peerStreams split: sum.splits)

lemma handleIncomingUniStream_slot:
  assumes "length (peerStreams conn) = 4" and "t < 4"
  shows "(peerStreams (fst (handleIncomingUniStream conn str d)) ! unat t \<noteq> None)
         = (peerStreams conn ! unat t \<noteq> None \<or> streamTypeRead d = Inr t)"
proof (cases "streamTypeRead d")
  case (Inl e)
  then show ?thesis by (simp add: handleIncomingUniStream_peerStreams)
next
  case (Inr u)
  show ?thesis
  proof (cases "u < 4")
    case True
    then show ?thesis
      using assms Inr unat_less_4 [of t] unat_less_4 [of u] word_unat_eq_iff [of u t]
      by (auto simp add: handleIncomingUniStream_peerStreams nth_list_update)
  next
    case False
    then show ?thesis
      using assms Inr by (auto simp add: handleIncomingUniStream_peerStreams)
  qed
qed

lemma handleIncomingUniStreams_Cons:
  "fst (handleIncomingUniStreams conn ((str, d) # rest))
     = fst (handleIncomingUniStreams (fst (handleIncomingUniStream conn str d)) rest)"
  "snd (handleIncomingUniStreams conn ((str, d) # rest))
     = snd (handleIncomingUniStream conn str d)
       # snd (handleIncomingUniStreams (fst (handleIncomingUniStream conn str d)) rest)"
  by (simp_all add: case_prod_beta Let_def)

lemma handleIncomingUniStreams_length:
  "length (peerStreams (fst (handleIncomingUniStreams conn xs))) = length (peerStreams conn)"
proof (induction xs arbitrary: conn)
  case Nil
  show ?case by simp
next
  case (Cons x xs)
  obtain str d where x: "x = (str, d)" by (cases x)
  show ?case
    using Cons.IH [of "fst (handleIncomingUniStream conn str d)"]
    by (simp add: x handleIncomingUniStreams_Cons handleIncomingUniStream_length
        del: handleIncomingUniStreams.simps)
qed

lemma handleIncomingUniStreams_slot:
  assumes "length (peerStreams conn) = 4" and "t < 4"
  shows "(peerStreams (fst (handleIncomingUniStreams conn xs)) ! unat t \<noteq> None)
         = (peerStreams conn ! unat t \<noteq> None \<or> (\<exists>x \<in> set xs. streamTypeRead (snd x) = Inr t))"
  using assms
proof (induction xs arbitrary: conn)
  case Nil
  show ?case by simp
next
  case (Cons x xs)
  obtain str d where x: "x = (str, d)" by (cases x)
  obtain c1 evs where h: "handleIncomingUniStream conn str d = (c1, evs)"
    by (cases "handleIncomingUniStream conn str d")
  have len: "length (peerStreams c1) = 4"
    using handleIncomingUniStream_length [of conn str d] Cons.prems h by simp
  have slot: "(peerStreams c1 ! unat t \<noteq> None)
              = (peerStreams conn ! unat t \<noteq> None \<or> streamTypeRead d = Inr t)"
    using handleIncomingUniStream_slot [OF Cons.prems, of str d] h by simp
  show ?case
    using Cons.IH [OF len Cons.prems(2)] slot h
    by (auto simp add: x handleIncomingUniStreams_Cons simp del: handleIncomingUniStreams.simps)
qed

lemma handleIncomingUniStreams_nth:
  "snd (handleIncomingUniStreams conn (pre @ (str, d) # post)) ! length pre
     = snd (handleIncomingUniStream (fst (handleIncomingUniStreams conn pre)) str d)"
proof (induction pre arbitrary: conn)
  case Nil
  show ?case by (simp add: handleIncomingUniStreams_Cons del: handleIncomingUniStreams.simps(2))
next
  case (Cons x pre)
  obtain s0 d0 where x: "x = (s0, d0)" by (cases x)
  show ?case
    using Cons.IH [of "fst (handleIncomingUniStream conn s0 d0)"]
    by (simp add: x handleIncomingUniStreams_Cons del: handleIncomingUniStreams.simps)
qed

lemma duplicate_closes:
  assumes "t < 4" and "streamTypeRead d = Inr t" and "peerStreams conn ! unat t \<noteq> None"
  shows "snd (handleIncomingUniStream conn str d)
           = [CloseWithError errorStreamCreationError (MoreThanOneOpened t)]"
  using assms by (simp add: handleIncomingUniStream_def Let_def)

lemma first_does_not_close:
  assumes "t = StreamTypeControl \<or> t = StreamTypeQPACKEncoder \<or> t = StreamTypeQPACKDecoder"
    and "streamTypeRead d = Inr t" and "peerStreams conn ! unat t = None"
  shows "CloseWithError errorStreamCreationError dsc \<notin> set (snd (handleIncomingUniStream conn str d))"
  using assms
  by (auto simp add: handleIncomingUniStream_def Let_def handleControlStream_no_creation_error
      type_defs)

text \<open>
  C5. The accept loop handles the streams \<open>pre\<close>, then a stream whose leading tag \<open>t\<close> is
  CONTROL, QPACK_ENCODER or QPACK_DECODER, then \<open>post\<close>. If a stream with that tag is already
  recorded (in the table at the start, or opened in \<open>pre\<close>), handling the stream does exactly
  one thing: it closes the connection with STREAM_CREATION_ERROR. If none is recorded, the
  stream is the first of its type, and handling it does not close the connection with
  STREAM_CREATION_ERROR.
\<close>

theorem at_most_one_critical_stream:
  assumes len: "length (peerStreams conn) = 4"
    and crit: "t = StreamTypeControl \<or> t = StreamTypeQPACKEncoder \<or> t = StreamTypeQPACKDecoder"
    and tag: "streamTypeRead d = Inr t"
  shows "((peerStreams conn ! unat t \<noteq> None \<or> (\<exists>x \<in> set pre. streamTypeRead (snd x) = Inr t)) \<longrightarrow>
            snd (handleIncomingUniStreams conn (pre @ (str, d) # post)) ! length pre
              = [CloseWithError errorStreamCreationError (MoreThanOneOpened t)])
       \<and> (peerStreams conn ! unat t = None \<and> (\<forall>x \<in> set pre. streamTypeRead (snd x) \<noteq> Inr t) \<longrightarrow>
            (\<forall>dsc. CloseWithError errorStreamCreationError dsc
                      \<notin> set (snd (handleIncomingUniStreams conn (pre @ (str, d) # post)) ! length pre)))"
proof -
  have t4: "t < 4" using crit by (auto simp add: type_defs)
  let ?c = "fst (handleIncomingUniStreams conn pre)"
  have slot: "(peerStreams ?c ! unat t \<noteq> None)
              = (peerStreams conn ! unat t \<noteq> None \<or> (\<exists>x \<in> set pre. streamTypeRead (snd x) = Inr t))"
    by (rule handleIncomingUniStreams_slot [OF len t4])
  show ?thesis
  proof (intro conjI impI allI)
    assume "peerStreams conn ! unat t \<noteq> None \<or> (\<exists>x \<in> set pre. streamTypeRead (snd x) = Inr t)"
    then have "peerStreams ?c ! unat t \<noteq> None" using slot by simp
    then show "snd (handleIncomingUniStreams conn (pre @ (str, d) # post)) ! length pre
              = [CloseWithError errorStreamCreationError (MoreThanOneOpened t)]"
      by (simp add: handleIncomingUniStreams_nth duplicate_closes [OF t4 tag])
  next
    fix dsc
    assume "peerStreams conn ! unat t = None \<and> (\<forall>x \<in> set pre. streamTypeRead (snd x) \<noteq> Inr t)"
    then have "peerStreams ?c ! unat t = None" using slot by auto
    then show "CloseWithError errorStreamCreationError dsc
                      \<notin> set (snd (handleIncomingUniStreams conn (pre @ (str, d) # post)) ! length pre)"
      by (simp add: handleIncomingUniStreams_nth first_does_not_close [OF crit tag])
  qed
qed


theorem at_most_one_critical_stream_witness:
  "snd (handleIncomingUniStreams
      \<lparr> session = \<lparr> perspective = PerspectiveClient, SupportsDatagrams = False,
                    ContextErr = None \<rparr>,
        settings = Map.empty, peerSettingsDone = False, peerSettings = Map.empty,
        peerSettingsErr = None, peerStreams = [None, None, None, None],
        incomingRequestStreams = [], incomingStreams = Map.empty,
        incomingUniStreams = Map.empty \<rparr>
      [(3, \<lparr> streamTypeRead = Inr StreamTypeControl, sessionIDRead = Inl EOF,
              controlFirstFrame = FrameRead FrameTypeSettings (Inr Map.empty) \<rparr>),
       (7, \<lparr> streamTypeRead = Inr StreamTypeControl, sessionIDRead = Inl EOF,
              controlFirstFrame = FrameRead FrameTypeSettings (Inr Map.empty) \<rparr>)]) ! 1
     = [CloseWithError errorStreamCreationError (MoreThanOneOpened StreamTypeControl)]
   \<and> CloseWithError errorStreamCreationError (MoreThanOneOpened StreamTypeControl)
      \<notin> set (snd (handleIncomingUniStreams
      \<lparr> session = \<lparr> perspective = PerspectiveClient, SupportsDatagrams = False,
                    ContextErr = None \<rparr>,
        settings = Map.empty, peerSettingsDone = False, peerSettings = Map.empty,
        peerSettingsErr = None, peerStreams = [None, None, None, None],
        incomingRequestStreams = [], incomingStreams = Map.empty,
        incomingUniStreams = Map.empty \<rparr>
      [(3, \<lparr> streamTypeRead = Inr StreamTypeControl, sessionIDRead = Inl EOF,
              controlFirstFrame = FrameRead FrameTypeSettings (Inr Map.empty) \<rparr>),
       (7, \<lparr> streamTypeRead = Inr StreamTypeControl, sessionIDRead = Inl EOF,
              controlFirstFrame = FrameRead FrameTypeSettings (Inr Map.empty) \<rparr>)]) ! 0)"
  using at_most_one_critical_stream
    [of "\<lparr> session = \<lparr> perspective = PerspectiveClient, SupportsDatagrams = False,
                    ContextErr = None \<rparr>,
        settings = Map.empty, peerSettingsDone = False, peerSettings = Map.empty,
        peerSettingsErr = None, peerStreams = [None, None, None, None],
        incomingRequestStreams = [], incomingStreams = Map.empty,
        incomingUniStreams = Map.empty \<rparr>"
      StreamTypeControl
      "\<lparr> streamTypeRead = Inr StreamTypeControl, sessionIDRead = Inl EOF,
              controlFirstFrame = FrameRead FrameTypeSettings (Inr Map.empty) \<rparr>"
      "[(3, \<lparr> streamTypeRead = Inr StreamTypeControl, sessionIDRead = Inl EOF,
              controlFirstFrame = FrameRead FrameTypeSettings (Inr Map.empty) \<rparr>)]"
      7 "[]"]
    at_most_one_critical_stream
    [of "\<lparr> session = \<lparr> perspective = PerspectiveClient, SupportsDatagrams = False,
                    ContextErr = None \<rparr>,
        settings = Map.empty, peerSettingsDone = False, peerSettings = Map.empty,
        peerSettingsErr = None, peerStreams = [None, None, None, None],
        incomingRequestStreams = [], incomingStreams = Map.empty,
        incomingUniStreams = Map.empty \<rparr>"
      StreamTypeControl
      "\<lparr> streamTypeRead = Inr StreamTypeControl, sessionIDRead = Inl EOF,
              controlFirstFrame = FrameRead FrameTypeSettings (Inr Map.empty) \<rparr>"
      "[]" 3
      "[(7, \<lparr> streamTypeRead = Inr StreamTypeControl, sessionIDRead = Inl EOF,
              controlFirstFrame = FrameRead FrameTypeSettings (Inr Map.empty) \<rparr>)]"]
  by (simp add: StreamTypeControl_def)

text \<open>A step of the accept loop keeps the invariant \<open>latchInv\<close>.\<close>

lemma handleControlStream_pending:
  assumes "\<not> peerSettingsDone conn"
  shows "peerSettingsDone (fst (handleControlStream conn fr))"
    and "filter isPanic (snd (handleControlStream conn fr)) = []"
    and "length (filter isClosePeerSettingsDone (snd (handleControlStream conn fr))) = 1"
  using assms
  by (cases "readSettings fr"; simp add: handleControlStream_def Let_def split: option.splits)+

lemma handleIncomingUniStream_latch:
  assumes inv: "latchInv conn"
  shows "latchInv (fst (handleIncomingUniStream conn str d))
       \<and> filter isPanic (snd (handleIncomingUniStream conn str d)) = []
       \<and> length (filter isClosePeerSettingsDone (snd (handleIncomingUniStream conn str d)))
           = (if streamTypeRead d = Inr StreamTypeControl \<and> peerStreams conn ! 0 = None
              then 1 else 0)"
proof -
  have len: "length (peerStreams conn) = 4"
    and closed: "peerSettingsDone conn \<Longrightarrow> peerStreams conn ! 0 \<noteq> None"
    using inv by (simp_all add: latchInv_def)
  show ?thesis
  proof (cases "streamTypeRead d")
    case (Inl e)
    then show ?thesis
      using inv by (simp add: handleIncomingUniStream_def)
  next
    case (Inr t)
    show ?thesis
    proof (cases "t = StreamTypeControl")
      case True
      show ?thesis
      proof (cases "peerStreams conn ! 0")
        case None
        then have pending: "\<not> peerSettingsDone conn" using closed by auto
        let ?c1 = "conn\<lparr>peerStreams := (peerStreams conn)[0 := Some str]\<rparr>"
        have p1: "\<not> peerSettingsDone ?c1" using pending by simp
        have h: "handleIncomingUniStream conn str d
                   = handleControlStream ?c1 (controlFirstFrame d)"
          using Inr True None by (simp add: handleIncomingUniStream_def Let_def type_defs)
        have "latchInv (fst (handleControlStream ?c1 (controlFirstFrame d)))"
          using len by (simp add: latchInv_def handleControlStream_peerStreams)
        then show ?thesis
          using Inr True None handleControlStream_pending(2,3) [OF p1, of "controlFirstFrame d"]
          by (simp add: h)
      next
        case (Some prev)
        have h: "handleIncomingUniStream conn str d
                   = (conn\<lparr>peerStreams := (peerStreams conn)[0 := Some str]\<rparr>,
                      [CloseWithError errorStreamCreationError (MoreThanOneOpened t)])"
          using Inr True Some by (simp add: handleIncomingUniStream_def Let_def type_defs)
        show ?thesis
          using len Some by (simp add: h latchInv_def)
      qed
    next
      case False
      have same: "peerSettingsDone (fst (handleIncomingUniStream conn str d)) = peerSettingsDone conn"
        and evs: "filter isPanic (snd (handleIncomingUniStream conn str d)) = []
                  \<and> filter isClosePeerSettingsDone (snd (handleIncomingUniStream conn str d)) = []"
        using Inr False
        by (simp_all add: handleIncomingUniStream_def Let_def incomingUniStreamsChan_def
            case_prod_beta split: sum.splits option.splits)
      have slot: "(peerStreams (fst (handleIncomingUniStream conn str d)) ! unat (0 :: 64 word) \<noteq> None)
                  = (peerStreams conn ! unat (0 :: 64 word) \<noteq> None \<or> streamTypeRead d = Inr 0)"
        by (rule handleIncomingUniStream_slot [OF len]) simp
      have "latchInv (fst (handleIncomingUniStream conn str d))"
        using inv same slot Inr False
        by (simp add: latchInv_def handleIncomingUniStream_length type_defs)
      then show ?thesis
        using evs Inr False by simp
    qed
  qed
qed

text \<open>
  Over the whole accept loop the latch is released at most once and never twice: only the
  first control stream reaches the control-stream reader, so the close of a closed channel
  does not occur.
\<close>

lemma latch_released_at_most_once:
  assumes "latchInv conn"
  shows "length (filter isClosePeerSettingsDone
                   (concat (snd (handleIncomingUniStreams conn streams))))
           \<le> (if peerStreams conn ! 0 = None then 1 else 0)
       \<and> filter isPanic (concat (snd (handleIncomingUniStreams conn streams))) = []"
  using assms
proof (induction streams arbitrary: conn)
  case Nil
  show ?case by simp
next
  case (Cons x streams)
  obtain str d where x: "x = (str, d)" by (cases x)
  let ?c1 = "fst (handleIncomingUniStream conn str d)"
  note step = handleIncomingUniStream_latch [OF Cons.prems, of str d]
  have len: "length (peerStreams conn) = 4" using Cons.prems by (simp add: latchInv_def)
  have slot: "(peerStreams ?c1 ! unat (0 :: 64 word) \<noteq> None)
                  = (peerStreams conn ! unat (0 :: 64 word) \<noteq> None \<or> streamTypeRead d = Inr 0)"
    by (rule handleIncomingUniStream_slot [OF len]) simp
  have ih: "length (filter isClosePeerSettingsDone
                   (concat (snd (handleIncomingUniStreams ?c1 streams))))
           \<le> (if peerStreams ?c1 ! 0 = None then 1 else 0)
       \<and> filter isPanic (concat (snd (handleIncomingUniStreams ?c1 streams))) = []"
    using Cons.IH step by blast
  show ?case
    using step ih slot
    by (auto simp add: x handleIncomingUniStreams_Cons type_defs
        simp del: handleIncomingUniStreams.simps split: if_splits)
qed

subsection \<open>The body\<close>

lemma requestDone_events:
  "snd (requestDone r) = (if reqDoneClosed r \<or> reqDone r = None then [] else [CloseChan (the (reqDone r))])"
  by (simp add: requestDone_def split: option.splits)

lemma requestDone_closed:
  "reqDone (fst (requestDone r)) = reqDone r"
  "body_str (fst (requestDone r)) = body_str r"
  "reqDoneClosed (fst (requestDone r)) = (reqDoneClosed r \<or> reqDone r \<noteq> None)"
  by (auto simp add: requestDone_def split: option.splits)

lemma body_Read_closes:
  "length (filter isCloseChan (snd (body_Read r rd trailers)))
     + closesLeft (fst (fst (body_Read r rd trailers))) = closesLeft r"
  by (cases "requestDone r")
     (auto simp add: body_Read_def closesLeft_def requestDone_def Let_def
       split: option.splits if_splits)

lemma body_Close_closes:
  "length (filter isCloseChan (snd (body_Close r)))
     + closesLeft (fst (fst (body_Close r))) = closesLeft r"
  by (cases "requestDone r")
     (auto simp add: body_Close_def closesLeft_def requestDone_def Let_def
       split: option.splits if_splits)

lemma body_calls_closes:
  "length (filter isCloseChan (snd (body_calls r cs))) \<le> closesLeft r"
proof (induction cs arbitrary: r)
  case Nil
  show ?case by simp
next
  case (Cons c cs)
  show ?case
  proof (cases c)
    case (CallRead rd trailers)
    show ?thesis
      using Cons.IH [of "fst (fst (body_Read r rd trailers))"] body_Read_closes [of r rd trailers]
      by (simp add: CallRead case_prod_beta Let_def)
  next
    case CallClose
    show ?thesis
      using Cons.IH [of "fst (fst (body_Close r))"] body_Close_closes [of r]
      by (simp add: CallClose case_prod_beta Let_def)
  qed
qed

lemma body_Read_str: "body_str (fst (fst (body_Read r rd trailers))) = body_str r"
  by (cases "requestDone r")
     (auto simp add: body_Read_def requestDone_def Let_def split: option.splits if_splits)

lemma body_Close_str: "body_str (fst (fst (body_Close r))) = body_str r"
  by (cases "requestDone r")
     (auto simp add: body_Close_def requestDone_def Let_def split: option.splits if_splits)

lemma body_Read_no_cancel:
  "filter (\<lambda>ev. ev = CancelRead s code) (snd (body_Read r rd trailers)) = []"
  by (cases "requestDone r")
     (auto simp add: body_Read_def requestDone_def Let_def split: option.splits if_splits)

lemma body_Close_cancel:
  "filter (\<lambda>ev. ev = CancelRead (body_str r) errorRequestCanceled) (snd (body_Close r))
     = [CancelRead (body_str r) errorRequestCanceled]"
  by (cases "requestDone r")
     (auto simp add: body_Close_def requestDone_def Let_def split: option.splits if_splits)

lemma body_calls_cancels:
  "length (filter (\<lambda>ev. ev = CancelRead (body_str r) errorRequestCanceled) (snd (body_calls r cs)))
     = length (filter (\<lambda>c. c = CallClose) cs)"
proof (induction cs arbitrary: r)
  case Nil
  show ?case by simp
next
  case (Cons c cs)
  show ?case
  proof (cases c)
    case (CallRead rd trailers)
    show ?thesis
      using Cons.IH [of "fst (fst (body_Read r rd trailers))"]
      by (simp add: CallRead case_prod_beta Let_def body_Read_str body_Read_no_cancel)
  next
    case CallClose
    show ?thesis
      using Cons.IH [of "fst (fst (body_Close r))"]
      by (simp add: CallClose case_prod_beta Let_def body_Close_str body_Close_cancel)
  qed
qed

text \<open>
  C10. For every body and every sequence of calls of \<^verbatim>\<open>Read\<close> (whatever each returns) and
  \<^verbatim>\<open>Close\<close>, the channel \<open>reqDone\<close> is closed at most once. \<^verbatim>\<open>Close\<close> returns nil, and after
  \<open>requestDone\<close> it issues \<^verbatim>\<open>CancelRead\<close> with REQUEST_CANCELED on the stream of the body; in
  a sequence of calls there is one such \<^verbatim>\<open>CancelRead\<close> for each call of \<^verbatim>\<open>Close\<close>.
\<close>

theorem request_done_closed_at_most_once:
  "length (filter isCloseChan (snd (body_calls r cs))) \<le> 1
   \<and> snd (fst (body_Close r)) = None
   \<and> snd (body_Close r)
       = snd (requestDone r) @ [CancelRead (body_str r) errorRequestCanceled]
   \<and> length (filter (\<lambda>ev. ev = CancelRead (body_str r) errorRequestCanceled)
               (snd (body_calls r cs)))
       = length (filter (\<lambda>c. c = CallClose) cs)"
proof (intro conjI)
  show "length (filter isCloseChan (snd (body_calls r cs))) \<le> 1"
    using body_calls_closes [of r cs] by (simp add: closesLeft_def split: if_splits)
  show "snd (fst (body_Close r)) = None"
    by (simp add: body_Close_def case_prod_beta)
  show "snd (body_Close r)
          = snd (requestDone r) @ [CancelRead (body_str r) errorRequestCanceled]"
    by (simp add: body_Close_def case_prod_beta requestDone_closed)
  show "length (filter (\<lambda>ev. ev = CancelRead (body_str r) errorRequestCanceled)
               (snd (body_calls r cs)))
       = length (filter (\<lambda>c. c = CallClose) cs)"
    by (rule body_calls_cancels)
qed

subsection \<open>The round trip\<close>

text \<open>Values of the library functions at the inputs of the closed theorems below.\<close>

lemma canonical_keys:
  "CanonicalMIMEHeaderKey ''content-encoding'' = ''Content-Encoding''"
  "CanonicalMIMEHeaderKey ''Content-Encoding'' = ''Content-Encoding''"
  "CanonicalMIMEHeaderKey ''Content-Length'' = ''Content-Length''"
  "CanonicalMIMEHeaderKey ''Accept-Encoding'' = ''Accept-Encoding''"
  "CanonicalMIMEHeaderKey ''Range'' = ''Range''"
  by code_simp+

lemma status_values:
  "Atoi ''204'' = Inr 204"
  by (simp add: Atoi_def ParseInt_def digitValue_def)

lemma canonical_lower:
  "CanonicalMIMEHeaderKey ''content-length'' = ''Content-Length''"
  by code_simp

lemma atoi_values:
  "Atoi ''103'' = Inr 103" "Atoi ''200'' = Inr 200" "Atoi ''abc'' = Inl ErrSyntax"
  "Atoi ''42'' = Inr 42" "Atoi ''1000'' = Inr 1000" "ParseInt ''5'' = Inr 5"
  "Atoi ''9223372036854775808'' = Inl ErrRange"
  by (simp_all add: Atoi_def ParseInt_def digitValue_def)

lemma writeRequest_no_error_action:
  "filter (isErrorAction s) (snd (writeRequest s req gz x)) = []"
  by (simp add: writeRequest_def split: option.splits)

lemma fieldsLoop_events:
  "snd (fieldsLoop st s hs res k status) = []
   \<or> snd (fieldsLoop st s hs res k status) = [CancelWrite s errorMessageError]"
  by (induction hs arbitrary: res k status) (auto split: sum.splits)

lemma fieldsLoop_no_error_action:
  "filter (isErrorAction s) (snd (fieldsLoop st s hs res k status)) = []"
  using fieldsLoop_events [of st s hs res k status]
  by (auto simp add: errorCode_defs)

lemma responseLoop_no_error_action:
  "filter (isErrorAction s) (snd (responseLoop st s frames final res)) = []"
proof (induction frames arbitrary: res)
  case Nil
  show ?case by simp
next
  case (Cons headers frames)
  obtain r evs where f: "fieldsLoop st s headers res 0 [] = (r, evs)"
    by (cases "fieldsLoop st s headers res 0 []")
  have evs: "filter (isErrorAction s) evs = []"
    using fieldsLoop_no_error_action [of s st headers res 0 "[]"] f by simp
  show ?case
    using Cons.IH evs by (auto simp add: f split: sum.splits prod.splits)
qed

lemma doRequest_no_error_action:
  "filter (isErrorAction s) (snd (doRequest st c s req done x)) = []"
  by (simp add: doRequest_def Let_def case_prod_beta writeRequest_no_error_action
      responseLoop_no_error_action split: option.splits sum.splits prod.splits)

lemma dial_ok_events: "fst (dial a b) = None \<Longrightarrow> snd (dial a b) = []"
  by (simp add: dial_def split: option.splits)

text \<open>\<^verbatim>\<open>doRequest\<close> reads one field of the client, \<open>disableCompression\<close>.\<close>

lemma doRequest_client:
  "disableCompression c' = disableCompression c \<Longrightarrow>
   doRequest st c' s req d x = doRequest st c s req d x"
  by (simp add: doRequest_def)

text \<open>
  When the authority matches, the handshake has not failed (the error stored by an earlier
  dial is nil, or the dial that this call makes succeeds), the wait for the handshake is not
  cut short and the stream is opened, \<^verbatim>\<open>RoundTrip\<close> is \<^verbatim>\<open>doRequest\<close> followed by the handling of
  its error.
\<close>

lemma RoundTrip_dialed:
  assumes auth: "requestAuthority env = authority c"
    and dialed: "dialed c" and h: "handshakeErr c = None"
    and w: "(if Method req = MethodGet0RTT then None else contextErr env) = None"
    and opened: "openRequestStream env = Inr s"
  shows "RoundTrip st c req env
     = (case doRequest st c s
                  (if Method req = MethodGet0RTT then req\<lparr>Method := ''GET''\<rparr> else req)
                  (newChan env) (onStream env) of
         (Inr r, evs1) \<Rightarrow> (c, Inr r, evs1)
       | (Inl err, evs1) \<Rightarrow>
               (c, Inl err,
                evs1 @ [CloseChan (newChan env)] @
                (case err of
                   FrameTypeError w t \<Rightarrow> [CloseWithError errorFrameUnexpected (ErrorText err)]
                 | FrameLengthError t l m \<Rightarrow> [CancelWrite s errorFrameError]
                 | _ \<Rightarrow> [CancelWrite s errorGeneralProtocolError])))"
  unfolding RoundTrip_def
  by (simp only: auth dialed h w opened if_True if_False simp_thms Let_def prod.case
      option.case sum.case append_Nil)

lemma RoundTrip_dials:
  assumes auth: "requestAuthority env = authority c"
    and dialed: "\<not> dialed c" and d: "dial (dialErr env) (openErr env) = (None, [])"
    and w: "(if Method req = MethodGet0RTT then None else contextErr env) = None"
    and opened: "openRequestStream env = Inr s"
  shows "RoundTrip st c req env
     = (case doRequest st c s
                  (if Method req = MethodGet0RTT then req\<lparr>Method := ''GET''\<rparr> else req)
                  (newChan env) (onStream env) of
         (Inr r, evs1) \<Rightarrow> (c\<lparr>dialed := True, handshakeErr := None\<rparr>, Inr r, evs1)
       | (Inl err, evs1) \<Rightarrow>
               (c\<lparr>dialed := True, handshakeErr := None\<rparr>, Inl err,
                evs1 @ [CloseChan (newChan env)] @
                (case err of
                   FrameTypeError w t \<Rightarrow> [CloseWithError errorFrameUnexpected (ErrorText err)]
                 | FrameLengthError t l m \<Rightarrow> [CancelWrite s errorFrameError]
                 | _ \<Rightarrow> [CancelWrite s errorGeneralProtocolError])))"
proof -
  have dc: "doRequest st (c\<lparr>dialed := True, handshakeErr := None\<rparr>) = doRequest st c"
    by (intro ext) (rule doRequest_client, simp)
  have hs: "handshakeErr (c\<lparr>dialed := True, handshakeErr := None\<rparr>) = None"
    by simp
  show ?thesis
    unfolding RoundTrip_def
    by (simp only: auth dialed d w opened dc hs if_True if_False simp_thms Let_def prod.case
        option.case sum.case append_Nil)
qed

lemma RoundTrip_reaches_doRequest:
  assumes auth: "requestAuthority env = authority c"
    and hs: "if dialed c then handshakeErr c = None
             else dialErr env = None \<and> openErr env = None"
    and wait: "Method req = MethodGet0RTT \<or> contextErr env = None"
    and opened: "openRequestStream env = Inr s"
  shows "snd (RoundTrip st c req env)
     = (let d = doRequest st c s
                  (if Method req = MethodGet0RTT then req\<lparr>Method := ''GET''\<rparr> else req)
                  (newChan env) (onStream env)
        in case fst d of
             Inr r \<Rightarrow> (Inr r, snd d)
           | Inl err \<Rightarrow>
               (Inl err,
                snd d @ [CloseChan (newChan env)] @
                (case err of
                   FrameTypeError w t \<Rightarrow> [CloseWithError errorFrameUnexpected (ErrorText err)]
                 | FrameLengthError t l m \<Rightarrow> [CancelWrite s errorFrameError]
                 | _ \<Rightarrow> [CancelWrite s errorGeneralProtocolError])))"
    and "dialed (fst (RoundTrip st c req env))"
    and "handshakeErr (fst (RoundTrip st c req env)) = None"
proof -
  have w: "(if Method req = MethodGet0RTT then None else contextErr env) = None"
    using wait by auto
  obtain r evs where dr: "doRequest st c s
      (if Method req = MethodGet0RTT then req\<lparr>Method := ''GET''\<rparr> else req)
      (newChan env) (onStream env) = (r, evs)"
    by (cases "doRequest st c s
      (if Method req = MethodGet0RTT then req\<lparr>Method := ''GET''\<rparr> else req)
      (newChan env) (onStream env)")
  have all: "snd (RoundTrip st c req env)
     = (case r of
             Inr r' \<Rightarrow> (Inr r', evs)
           | Inl err \<Rightarrow>
               (Inl err,
                evs @ [CloseChan (newChan env)] @
                (case err of
                   FrameTypeError w t \<Rightarrow> [CloseWithError errorFrameUnexpected (ErrorText err)]
                 | FrameLengthError t l m \<Rightarrow> [CancelWrite s errorFrameError]
                 | _ \<Rightarrow> [CancelWrite s errorGeneralProtocolError]))) 
    \<and> dialed (fst (RoundTrip st c req env))
    \<and> handshakeErr (fst (RoundTrip st c req env)) = None"
  proof (cases "dialed c")
    case True
    then have h: "handshakeErr c = None" using hs by simp
    show ?thesis
      unfolding RoundTrip_dialed [OF auth True h w opened] dr
      using True h by (cases r) simp_all
  next
    case False
    then have d: "dial (dialErr env) (openErr env) = (None, [])"
      using hs by (simp add: dial_def)
    show ?thesis
      unfolding RoundTrip_dials [OF auth False d w opened] dr
      by (cases r) simp_all
  qed
  show "snd (RoundTrip st c req env)
     = (let d = doRequest st c s
                  (if Method req = MethodGet0RTT then req\<lparr>Method := ''GET''\<rparr> else req)
                  (newChan env) (onStream env)
        in case fst d of
             Inr r \<Rightarrow> (Inr r, snd d)
           | Inl err \<Rightarrow>
               (Inl err,
                snd d @ [CloseChan (newChan env)] @
                (case err of
                   FrameTypeError w t \<Rightarrow> [CloseWithError errorFrameUnexpected (ErrorText err)]
                 | FrameLengthError t l m \<Rightarrow> [CancelWrite s errorFrameError]
                 | _ \<Rightarrow> [CancelWrite s errorGeneralProtocolError])))"
    unfolding dr Let_def fst_conv snd_conv using all by blast
  show "dialed (fst (RoundTrip st c req env))" using all by blast
  show "handshakeErr (fst (RoundTrip st c req env)) = None" using all by blast
qed

text \<open>
  C7. \<^verbatim>\<open>RoundTrip\<close> reaches \<^verbatim>\<open>doRequest\<close> (the authority matches; the handshake has not failed:
  the error stored by an earlier dial is nil, or the dial of this call succeeds; the wait
  for the handshake is not cut short; the stream is opened) and \<^verbatim>\<open>doRequest\<close> returns the
  error \<open>err\<close>. Then \<^verbatim>\<open>RoundTrip\<close> returns \<open>err\<close>; after the events of \<^verbatim>\<open>doRequest\<close> it closes
  \<open>reqDone\<close> and does one thing more: for a \<open>FrameTypeError\<close> it closes the connection with
  FRAME_UNEXPECTED, for a \<open>FrameLengthError\<close> it resets the stream with FRAME_ERROR, for any
  other error it resets the stream with GENERAL_PROTOCOL_ERROR. Among all events of the
  round trip exactly one is one of these three actions, and the error is not stored as a
  handshake error.
\<close>

theorem round_trip_error_classification:
  assumes auth: "requestAuthority env = authority c"
    and hs: "if dialed c then handshakeErr c = None
             else dialErr env = None \<and> openErr env = None"
    and wait: "Method req = MethodGet0RTT \<or> contextErr env = None"
    and opened: "openRequestStream env = Inr s"
    and fail: "fst (doRequest st c s
                      (if Method req = MethodGet0RTT then req\<lparr>Method := ''GET''\<rparr> else req)
                      (newChan env) (onStream env)) = Inl err"
  shows "fst (snd (RoundTrip st c req env)) = Inl err
       \<and> snd (snd (RoundTrip st c req env))
           = snd (doRequest st c s
                      (if Method req = MethodGet0RTT then req\<lparr>Method := ''GET''\<rparr> else req)
                      (newChan env) (onStream env))
             @ [CloseChan (newChan env),
                (case err of
                   FrameTypeError w t \<Rightarrow> CloseWithError errorFrameUnexpected (ErrorText err)
                 | FrameLengthError t l m \<Rightarrow> CancelWrite s errorFrameError
                 | _ \<Rightarrow> CancelWrite s errorGeneralProtocolError)]
       \<and> length (filter (isErrorAction s) (snd (snd (RoundTrip st c req env)))) = 1
       \<and> handshakeErr (fst (RoundTrip st c req env)) = None"
proof -
  note rt = RoundTrip_reaches_doRequest [OF auth hs wait opened]
  have res: "fst (snd (RoundTrip st c req env)) = Inl err"
    using fail by (simp add: rt(1) Let_def)
  have evs: "snd (snd (RoundTrip st c req env))
           = snd (doRequest st c s
                      (if Method req = MethodGet0RTT then req\<lparr>Method := ''GET''\<rparr> else req)
                      (newChan env) (onStream env))
             @ [CloseChan (newChan env),
                (case err of
                   FrameTypeError w t \<Rightarrow> CloseWithError errorFrameUnexpected (ErrorText err)
                 | FrameLengthError t l m \<Rightarrow> CancelWrite s errorFrameError
                 | _ \<Rightarrow> CancelWrite s errorGeneralProtocolError)]"
    using fail by (cases err) (simp_all add: rt(1) Let_def)
  have one: "length (filter (isErrorAction s) (snd (snd (RoundTrip st c req env)))) = 1"
    by (cases err) (simp_all add: evs doRequest_no_error_action errorCode_defs)
  show ?thesis using res evs one rt(3) by simp
qed

theorem round_trip_error_classification_witness:
  "snd (RoundTrip (\<lambda>k. [])
      \<lparr> authority = ''example.com:443'', disableCompression = False, dialed = True,
        handshakeErr = None \<rparr>
      \<lparr> Method = ''GET'', Host = ''example.com'', req_Header = Map.empty,
        req_hasBody = False, req_lenTrailer = 0 \<rparr>
      \<lparr> requestAuthority = ''example.com:443'', dialErr = None, openErr = None,
        contextErr = None, openRequestStream = Inr 4, newChan = 9,
        onStream = \<lparr> requestHeadersErr = None, writeHeadersErr = None,
                     responseHeaders = [],
                     readHeadersErr = FrameTypeError FrameTypeHeaders FrameTypeData \<rparr> \<rparr>)
     = (Inl (FrameTypeError FrameTypeHeaders FrameTypeData),
        [WriteRequestHeaders 4 True, StreamClose 4, CloseChan 9,
         CloseWithError errorFrameUnexpected (ErrorText (FrameTypeError FrameTypeHeaders FrameTypeData))])
   \<and> snd (RoundTrip (\<lambda>k. [])
      \<lparr> authority = ''example.com:443'', disableCompression = False, dialed = True,
        handshakeErr = None \<rparr>
      \<lparr> Method = ''GET'', Host = ''example.com'', req_Header = Map.empty,
        req_hasBody = False, req_lenTrailer = 0 \<rparr>
      \<lparr> requestAuthority = ''example.com:443'', dialErr = None, openErr = None,
        contextErr = None, openRequestStream = Inr 4, newChan = 9,
        onStream = \<lparr> requestHeadersErr = None, writeHeadersErr = None,
                     responseHeaders = [],
                     readHeadersErr = FrameLengthError FrameTypeHeaders 16777217 16777216 \<rparr> \<rparr>)
     = (Inl (FrameLengthError FrameTypeHeaders 16777217 16777216),
        [WriteRequestHeaders 4 True, StreamClose 4, CloseChan 9, CancelWrite 4 errorFrameError])
   \<and> snd (RoundTrip (\<lambda>k. [])
      \<lparr> authority = ''example.com:443'', disableCompression = False, dialed = False,
        handshakeErr = None \<rparr>
      \<lparr> Method = ''GET'', Host = ''example.com'', req_Header = Map.empty,
        req_hasBody = False, req_lenTrailer = 0 \<rparr>
      \<lparr> requestAuthority = ''example.com:443'', dialErr = None, openErr = None,
        contextErr = None, openRequestStream = Inr 4, newChan = 9,
        onStream = \<lparr> requestHeadersErr = None, writeHeadersErr = None,
                     responseHeaders = [],
                     readHeadersErr = EOF \<rparr> \<rparr>)
     = (Inl EOF,
        [WriteRequestHeaders 4 True, StreamClose 4, CloseChan 9,
         CancelWrite 4 errorGeneralProtocolError])"
  using round_trip_error_classification
    [of "\<lparr> requestAuthority = ''example.com:443'', dialErr = None, openErr = None,
        contextErr = None, openRequestStream = Inr 4, newChan = 9,
        onStream = \<lparr> requestHeadersErr = None, writeHeadersErr = None,
                     responseHeaders = [],
                     readHeadersErr = FrameTypeError FrameTypeHeaders FrameTypeData \<rparr> \<rparr>"
        "\<lparr> authority = ''example.com:443'', disableCompression = False, dialed = True,
        handshakeErr = None \<rparr>"
        "\<lparr> Method = ''GET'', Host = ''example.com'', req_Header = Map.empty,
        req_hasBody = False, req_lenTrailer = 0 \<rparr>" 4 "\<lambda>k. []" "FrameTypeError FrameTypeHeaders FrameTypeData"]
    round_trip_error_classification
    [of "\<lparr> requestAuthority = ''example.com:443'', dialErr = None, openErr = None,
        contextErr = None, openRequestStream = Inr 4, newChan = 9,
        onStream = \<lparr> requestHeadersErr = None, writeHeadersErr = None,
                     responseHeaders = [],
                     readHeadersErr = FrameLengthError FrameTypeHeaders 16777217 16777216 \<rparr> \<rparr>"
        "\<lparr> authority = ''example.com:443'', disableCompression = False, dialed = True,
        handshakeErr = None \<rparr>"
        "\<lparr> Method = ''GET'', Host = ''example.com'', req_Header = Map.empty,
        req_hasBody = False, req_lenTrailer = 0 \<rparr>" 4 "\<lambda>k. []" "FrameLengthError FrameTypeHeaders 16777217 16777216"]
    round_trip_error_classification
    [of "\<lparr> requestAuthority = ''example.com:443'', dialErr = None, openErr = None,
        contextErr = None, openRequestStream = Inr 4, newChan = 9,
        onStream = \<lparr> requestHeadersErr = None, writeHeadersErr = None,
                     responseHeaders = [],
                     readHeadersErr = EOF \<rparr> \<rparr>"
        "\<lparr> authority = ''example.com:443'', disableCompression = False, dialed = False,
        handshakeErr = None \<rparr>"
        "\<lparr> Method = ''GET'', Host = ''example.com'', req_Header = Map.empty,
        req_hasBody = False, req_lenTrailer = 0 \<rparr>" 4 "\<lambda>k. []" "EOF"]
  by (simp add: RoundTrip_def doRequest_def writeRequest_def dial_def Let_def
      MethodGet0RTT_def Header_Get_def canonical_keys)

text \<open>
  The fields loop and the reference notions: a frame with a malformed status has no status
  code; the loop fails on it and resets the stream, and on any other frame it ends with the
  status code of the frame and has added the other fields to the header.
\<close>

lemma frameStatus_malformed: "(frameStatus hs k = None) = malformedStatus hs"
  by (induction hs arbitrary: k) (auto simp add: malformedStatus_def split: sum.splits)

lemma fieldsLoop_malformed:
  "frameStatus hs k = None \<Longrightarrow>
   fieldsLoop st s hs res k status
     = (Inl (OtherError ''invalid or missing :status header''), [CancelWrite s errorMessageError])"
  by (induction hs arbitrary: res k status) (auto split: sum.splits if_splits)

lemma fieldsLoop_status:
  "frameStatus hs k = Some j \<Longrightarrow>
   \<exists>status'. fieldsLoop st s hs res k status
     = (Inr (res\<lparr>Header := addFields (Header res) hs\<rparr>, j, status'), [])"
proof (induction hs arbitrary: res k status)
  case Nil
  then show ?case by simp
next
  case (Cons hf hfs)
  show ?case
  proof (cases "Name hf = pseudoHeaderStatus")
    case True
    then obtain i where a: "Atoi (Value hf) = Inr i" and r: "frameStatus hfs i = Some j"
      using Cons.prems by (cases "Atoi (Value hf)") simp_all
    show ?thesis
      using Cons.IH [OF r, of res "Value hf @ '' '' @ st (StatusCode res)"] True a by simp
  next
    case False
    then have r: "frameStatus hfs k = Some j" using Cons.prems by simp
    show ?thesis
      using Cons.IH [OF r, of "res\<lparr>Header := Header_Add (Header res) (Name hf) (Value hf)\<rparr>"
          status] False
      by simp
  qed
qed

lemma addFields_append: "addFields h (xs @ ys) = addFields (addFields h xs) ys"
  by (induction xs arbitrary: h) simp_all

text \<open>The outer loop passes over interim responses, keeping their fields.\<close>

lemma responseLoop_interim:
  "list_all interimResponse pre \<Longrightarrow>
   responseLoop st s (pre @ rest) final res
     = responseLoop st s rest final (res\<lparr>Header := addFields (Header res) (concat pre)\<rparr>)"
proof (induction pre arbitrary: res)
  case Nil
  show ?case by simp
next
  case (Cons h pre)
  obtain k where fs: "frameStatus h 0 = Some k" and k: "100 \<le> k \<and> k < 200"
    using Cons.prems by (auto simp add: interimResponse_def split: option.splits)
  have rest: "list_all interimResponse pre" using Cons.prems by simp
  obtain status' where f:
    "fieldsLoop st s h res 0 [] = (Inr (res\<lparr>Header := addFields (Header res) h\<rparr>, k, status'), [])"
    using fieldsLoop_status [OF fs] by blast
  show ?case using k by (simp add: f Cons.IH [OF rest] addFields_append)
qed

lemma responseLoop_malformed:
  assumes "list_all interimResponse pre" and "malformedStatus headers"
  shows "responseLoop st s (pre @ headers # post) final res
           = (Inl (OtherError ''invalid or missing :status header''),
              [CancelWrite s errorMessageError])"
proof -
  have "frameStatus headers 0 = None"
    using assms(2) by (simp add: frameStatus_malformed)
  then show ?thesis
    by (simp add: responseLoop_interim [OF assms(1)] fieldsLoop_malformed)
qed

lemma responseLoop_final:
  assumes "list_all interimResponse pre" and fs: "frameStatus headers 0 = Some k"
    and k: "k < 100 \<or> 200 \<le> k"
  shows "\<exists>status'. responseLoop st s (pre @ headers # post) final res
           = (Inr (res\<lparr>Header := addFields (Header res) (concat (pre @ [headers])),
                        StatusCode := k, Status := status'\<rparr>), [])"
proof -
  let ?res1 = "res\<lparr>Header := addFields (Header res) (concat pre)\<rparr>"
  obtain status' where f:
    "fieldsLoop st s headers ?res1 0 []
       = (Inr (?res1\<lparr>Header := addFields (Header ?res1) headers\<rparr>, k, status'), [])"
    using fieldsLoop_status [OF fs] by blast
  have "responseLoop st s (pre @ headers # post) final res
           = (Inr (res\<lparr>Header := addFields (Header res) (concat (pre @ [headers])),
                        StatusCode := k, Status := status'\<rparr>), [])"
    using k by (simp add: responseLoop_interim [OF assms(1)] f addFields_append)
  then show ?thesis by blast
qed

lemma writeRequest_written:
  "requestHeadersErr x = None \<Longrightarrow> writeHeadersErr x = None \<Longrightarrow>
   fst (writeRequest s req gz x) = None"
  by (simp add: writeRequest_def)

lemma writeRequest_no_reset:
  "CancelWrite s' code \<notin> set (snd (writeRequest s req gz x))"
  by (simp add: writeRequest_def split: option.splits)

lemma doRequest_malformed:
  assumes "requestHeadersErr x = None" and "writeHeadersErr x = None"
    and "responseHeaders x = pre @ headers # post"
    and "list_all interimResponse pre" and "malformedStatus headers"
  shows "fst (doRequest st c s req d x) = Inl (OtherError ''invalid or missing :status header'')"
    and "\<exists>evs. snd (doRequest st c s req d x) = evs @ [CancelWrite s errorMessageError]"
  using assms(1,2,3)
  by (simp_all add: doRequest_def Let_def case_prod_beta writeRequest_def
      responseLoop_malformed [OF assms(4,5)])

text \<open>
  What \<^verbatim>\<open>doRequest\<close> returns when the request was written and the frames read are interim
  responses followed by a frame with a status code \<open>k\<close> outside 100 to 199: no further event,
  and the response built from the fields received and from \<open>k\<close>.
\<close>

lemma doRequest_final:
  assumes w1: "requestHeadersErr x = None" and w2: "writeHeadersErr x = None"
    and frames: "responseHeaders x = pre @ headers # post"
    and interim: "list_all interimResponse pre"
    and fs: "frameStatus headers 0 = Some k"
    and final: "k < 100 \<or> 200 \<le> k"
    and H: "H = receivedHeader (pre @ [headers])"
    and gz: "gz = (\<not> disableCompression c \<and> Method req \<noteq> ''HEAD''
                   \<and> Header_Get (req_Header req) ''Accept-Encoding'' = []
                   \<and> Header_Get (req_Header req) ''Range'' = [])"
    and block: "block = (H ''Transfer-Encoding'' = None \<and> k \<noteq> 204
                         \<and> \<not> (Method req = ''CONNECT'' \<and> 200 \<le> k \<and> k < 300))"
    and clen: "clen = (case H ''Content-Length'' of
                         Some [v] \<Rightarrow> (case ParseInt v of Inr n \<Rightarrow> n | Inl e \<Rightarrow> -1)
                       | _ \<Rightarrow> -1)"
  shows "\<exists>status'. doRequest st c s req d x =
           (Inr (if gz \<and> Header_Get H ''Content-Encoding'' = ''gzip''
                 then \<lparr> Proto = ''HTTP/3'', ProtoMajor = 3,
                        Header = Header_Del (Header_Del H ''Content-Encoding'') ''Content-Length'',
                        StatusCode = k, Status = status', ContentLength = -1,
                        Uncompressed = True, Body = GzipReader (newResponseBody s True d) \<rparr>
                 else \<lparr> Proto = ''HTTP/3'', ProtoMajor = 3, Header = H,
                        StatusCode = k, Status = status',
                        ContentLength = (if block then clen else 0),
                        Uncompressed = False,
                        Body = ResponseBody (newResponseBody s True d) \<rparr>),
            snd (writeRequest s req gz x))"
proof -
  let ?res0 = "\<lparr> Proto = ''HTTP/3'', ProtoMajor = 3, Header = Map.empty,
                 StatusCode = 0, Status = [], ContentLength = 0,
                 Uncompressed = False, Body = NoBody \<rparr>"
  obtain status' where
    "responseLoop st s (pre @ headers # post) (readHeadersErr x) ?res0
       = (Inr (?res0\<lparr>Header := addFields (Header ?res0) (concat (pre @ [headers])),
                     StatusCode := k, Status := status'\<rparr>), [])"
    using responseLoop_final [OF interim fs final] by blast
  then have loop:
    "responseLoop st s (responseHeaders x) (readHeadersErr x) ?res0
       = (Inr \<lparr> Proto = ''HTTP/3'', ProtoMajor = 3, Header = H,
                StatusCode = k, Status = status', ContentLength = 0,
                Uncompressed = False, Body = NoBody \<rparr>, [])"
    by (simp add: frames H receivedHeader_def)
  have w: "fst (writeRequest s req gz x) = None"
    by (rule writeRequest_written [OF w1 w2])
  have inf: "\<not> (100 \<le> k \<and> k < 200)" using final by auto
  have b: "(H ''Transfer-Encoding'' = None \<and> k \<noteq> 204
            \<and> (Method req = ''CONNECT'' \<longrightarrow> 200 \<le> k \<longrightarrow> \<not> k < 300)) = block"
    by (auto simp add: block)
  have "doRequest st c s req d x =
           (Inr (if gz \<and> Header_Get H ''Content-Encoding'' = ''gzip''
                 then \<lparr> Proto = ''HTTP/3'', ProtoMajor = 3,
                        Header = Header_Del (Header_Del H ''Content-Encoding'') ''Content-Length'',
                        StatusCode = k, Status = status', ContentLength = -1,
                        Uncompressed = True, Body = GzipReader (newResponseBody s True d) \<rparr>
                 else \<lparr> Proto = ''HTTP/3'', ProtoMajor = 3, Header = H,
                        StatusCode = k, Status = status',
                        ContentLength = (if block then clen else 0),
                        Uncompressed = False,
                        Body = ResponseBody (newResponseBody s True d) \<rparr>),
            snd (writeRequest s req gz x))"
  proof (cases block)
    case True
    then have t: "H ''Transfer-Encoding'' = None" "k \<noteq> 204"
      "\<not> (Method req = ''CONNECT'' \<and> 200 \<le> k \<and> k < 300)"
      by (simp_all add: block)
    show ?thesis
      unfolding doRequest_def gz [symmetric] Let_def case_prod_beta
      by (simp add: w loop inf True t clen [symmetric])
  next
    case False
    then have f: "\<not> (H ''Transfer-Encoding'' = None \<and> k \<noteq> 204
                      \<and> \<not> (Method req = ''CONNECT'' \<and> 200 \<le> k \<and> k < 300))"
      by (simp add: block)
    show ?thesis
      unfolding doRequest_def gz [symmetric] Let_def case_prod_beta
      using f by (auto simp add: w loop inf False)
  qed
  then show ?thesis by blast
qed

text \<open>
  C2, as stated, fails for a numeric status below 100: the response \<^verbatim>\<open>:status: 42\<close> is
  returned by \<^verbatim>\<open>RoundTrip\<close> with status code 42, and the stream is not reset.
\<close>

theorem non_numeric_range_counterexample:
  "Atoi ''42'' = Inr 42
   \<and> snd (RoundTrip (\<lambda>k. [])
      \<lparr> authority = ''example.com:443'', disableCompression = False, dialed = True,
        handshakeErr = None \<rparr>
      \<lparr> Method = ''GET'', Host = ''example.com'', req_Header = Map.empty,
        req_hasBody = False, req_lenTrailer = 0 \<rparr>
      \<lparr> requestAuthority = ''example.com:443'', dialErr = None, openErr = None,
        contextErr = None, openRequestStream = Inr 4, newChan = 9,
        onStream = \<lparr> requestHeadersErr = None, writeHeadersErr = None,
                     responseHeaders = [[HeaderField '':status'' ''42'']],
                     readHeadersErr = EOF \<rparr> \<rparr>)
     = (Inr \<lparr> Proto = ''HTTP/3'', ProtoMajor = 3, Header = Map.empty, StatusCode = 42,
             Status = ''42 '', ContentLength = -1, Uncompressed = False,
             Body = ResponseBody \<lparr> body_str = 4, reqDone = Some 9, reqDoneClosed = False,
                                   onTrailers = True \<rparr> \<rparr>,
        [WriteRequestHeaders 4 True, StreamClose 4])"
  by (simp add: RoundTrip_def doRequest_def writeRequest_def Let_def MethodGet0RTT_def
      Header_Get_def canonical_keys atoi_values pseudoHeaderStatus_def newResponseBody_def)

text \<open>
  C2, amended. \<^verbatim>\<open>RoundTrip\<close> reaches \<^verbatim>\<open>doRequest\<close> and the request is written. The frames read
  are the interim responses \<open>pre\<close> and then the HEADERS frame \<open>headers\<close>. A frame has no status
  code exactly when it has a \<^verbatim>\<open>:status\<close> field whose value \<^verbatim>\<open>strconv.Atoi\<close> rejects: a value that
  is not an optionally signed decimal integer (the empty value too) or that does not fit
  \<^verbatim>\<open>int\<close>. For such a frame \<^verbatim>\<open>doRequest\<close> ends by resetting the stream with MESSAGE_ERROR and
  returns the error "invalid or missing :status header"; \<^verbatim>\<open>RoundTrip\<close> returns that error, and
  its events end with that reset, the close of \<open>reqDone\<close> and the reset with
  GENERAL_PROTOCOL_ERROR: such a value is never accepted as the status of the response. A
  frame whose \<^verbatim>\<open>:status\<close> values \<^verbatim>\<open>strconv.Atoi\<close> accepts is not rejected, whatever the number:
  when its status code \<open>k\<close> (that of its last \<^verbatim>\<open>:status\<close> field, 0 without such a field) is
  outside 100 to 199, so also when it is below 100 or above 999, \<^verbatim>\<open>RoundTrip\<close> returns a
  response with status code \<open>k\<close> and the stream is not reset.
\<close>

theorem malformed_status_resets:
  assumes auth: "requestAuthority env = authority c"
    and hs: "if dialed c then handshakeErr c = None
             else dialErr env = None \<and> openErr env = None"
    and wait: "Method req = MethodGet0RTT \<or> contextErr env = None"
    and opened: "openRequestStream env = Inr s"
    and written: "requestHeadersErr (onStream env) = None \<and> writeHeadersErr (onStream env) = None"
    and frames: "responseHeaders (onStream env) = pre @ headers # post"
    and interim: "list_all interimResponse pre"
  shows "(frameStatus headers 0 = None) = malformedStatus headers
       \<and> (malformedStatus headers \<longrightarrow>
            fst (doRequest st c s req' d (onStream env))
              = Inl (OtherError ''invalid or missing :status header'')
          \<and> (\<exists>evs. snd (doRequest st c s req' d (onStream env))
                      = evs @ [CancelWrite s errorMessageError])
          \<and> fst (snd (RoundTrip st c req env))
              = Inl (OtherError ''invalid or missing :status header'')
          \<and> (\<exists>evs. snd (snd (RoundTrip st c req env))
                      = evs @ [CancelWrite s errorMessageError, CloseChan (newChan env),
                               CancelWrite s errorGeneralProtocolError]))
       \<and> (\<forall>k. frameStatus headers 0 = Some k \<and> (k < 100 \<or> 200 \<le> k) \<longrightarrow>
            (\<exists>res. fst (snd (RoundTrip st c req env)) = Inr res \<and> StatusCode res = k)
          \<and> (\<forall>code. CancelWrite s code \<notin> set (snd (snd (RoundTrip st c req env)))))"
proof -
  let ?req1 = "if Method req = MethodGet0RTT then req\<lparr>Method := ''GET''\<rparr> else req"
  let ?d = "doRequest st c s ?req1 (newChan env) (onStream env)"
  note rt = RoundTrip_reaches_doRequest [OF auth hs wait opened]
  have w1: "requestHeadersErr (onStream env) = None" and w2: "writeHeadersErr (onStream env) = None"
    using written by simp_all
  have a: "(frameStatus headers 0 = None) = malformedStatus headers"
    by (rule frameStatus_malformed)
  have b: "fst (doRequest st c s req' d (onStream env))
              = Inl (OtherError ''invalid or missing :status header'')
          \<and> (\<exists>evs. snd (doRequest st c s req' d (onStream env))
                      = evs @ [CancelWrite s errorMessageError])
          \<and> fst (snd (RoundTrip st c req env))
              = Inl (OtherError ''invalid or missing :status header'')
          \<and> (\<exists>evs. snd (snd (RoundTrip st c req env))
                      = evs @ [CancelWrite s errorMessageError, CloseChan (newChan env),
                               CancelWrite s errorGeneralProtocolError])"
    if malformed: "malformedStatus headers"
  proof -
    note m = doRequest_malformed [OF w1 w2 frames interim malformed]
    have r: "fst ?d = Inl (OtherError ''invalid or missing :status header'')"
      by (rule m(1))
    obtain evs where e: "snd ?d = evs @ [CancelWrite s errorMessageError]"
      using m(2) [of st c s ?req1 "newChan env"] by blast
    have "snd (RoundTrip st c req env)
            = (Inl (OtherError ''invalid or missing :status header''),
               evs @ [CancelWrite s errorMessageError, CloseChan (newChan env),
                      CancelWrite s errorGeneralProtocolError])"
      by (simp add: rt(1) Let_def r e)
    then show ?thesis
      using m(1) [of st c s req' d] m(2) [of st c s req' d] by simp
  qed
  have c: "(\<exists>res. fst (snd (RoundTrip st c req env)) = Inr res \<and> StatusCode res = k)
          \<and> (\<forall>code. CancelWrite s code \<notin> set (snd (snd (RoundTrip st c req env))))"
    if fs: "frameStatus headers 0 = Some k" and final: "k < 100 \<or> 200 \<le> k" for k
  proof -
    obtain res gz where dr: "?d = (Inr res, snd (writeRequest s ?req1 gz (onStream env)))"
      and sc: "StatusCode res = k"
      using doRequest_final [OF w1 w2 frames interim fs final refl refl refl refl,
          of st c s ?req1 "newChan env"]
      by (auto split: if_splits)
    have "snd (RoundTrip st c req env)
            = (Inr res, snd (writeRequest s ?req1 gz (onStream env)))"
      by (simp add: rt(1) Let_def dr)
    then show ?thesis
      using sc by (simp add: writeRequest_no_reset)
  qed
  show ?thesis using a b c by blast
qed

theorem malformed_status_resets_witness:
  "snd (RoundTrip (\<lambda>k. [])
      \<lparr> authority = ''example.com:443'', disableCompression = False, dialed = True,
        handshakeErr = None \<rparr>
      \<lparr> Method = ''GET'', Host = ''example.com'', req_Header = Map.empty,
        req_hasBody = False, req_lenTrailer = 0 \<rparr>
      \<lparr> requestAuthority = ''example.com:443'', dialErr = None, openErr = None,
        contextErr = None, openRequestStream = Inr 4, newChan = 9,
        onStream = \<lparr> requestHeadersErr = None, writeHeadersErr = None,
                     responseHeaders = [[HeaderField '':status'' ''103''], [HeaderField '':status'' ''abc''],
                                        [HeaderField '':status'' ''200'']],
                     readHeadersErr = EOF \<rparr> \<rparr>)
     = (Inl (OtherError ''invalid or missing :status header''),
        [WriteRequestHeaders 4 True, StreamClose 4, CancelWrite 4 errorMessageError,
         CloseChan 9, CancelWrite 4 errorGeneralProtocolError])
   \<and> snd (RoundTrip (\<lambda>k. [])
      \<lparr> authority = ''example.com:443'', disableCompression = False, dialed = True,
        handshakeErr = None \<rparr>
      \<lparr> Method = ''GET'', Host = ''example.com'', req_Header = Map.empty,
        req_hasBody = False, req_lenTrailer = 0 \<rparr>
      \<lparr> requestAuthority = ''example.com:443'', dialErr = None, openErr = None,
        contextErr = None, openRequestStream = Inr 4, newChan = 9,
        onStream = \<lparr> requestHeadersErr = None, writeHeadersErr = None,
                     responseHeaders = [[HeaderField '':status'' ''103''],
                                        [HeaderField '':status'' ''9223372036854775808'']],
                     readHeadersErr = EOF \<rparr> \<rparr>)
     = (Inl (OtherError ''invalid or missing :status header''),
        [WriteRequestHeaders 4 True, StreamClose 4, CancelWrite 4 errorMessageError,
         CloseChan 9, CancelWrite 4 errorGeneralProtocolError])
   \<and> snd (RoundTrip (\<lambda>k. [])
      \<lparr> authority = ''example.com:443'', disableCompression = False, dialed = True,
        handshakeErr = None \<rparr>
      \<lparr> Method = ''GET'', Host = ''example.com'', req_Header = Map.empty,
        req_hasBody = False, req_lenTrailer = 0 \<rparr>
      \<lparr> requestAuthority = ''example.com:443'', dialErr = None, openErr = None,
        contextErr = None, openRequestStream = Inr 4, newChan = 9,
        onStream = \<lparr> requestHeadersErr = None, writeHeadersErr = None,
                     responseHeaders = [[HeaderField '':status'' ''103''], [HeaderField '':status'' ''1000'']],
                     readHeadersErr = EOF \<rparr> \<rparr>)
     = (Inr \<lparr> Proto = ''HTTP/3'', ProtoMajor = 3, Header = Map.empty, StatusCode = 1000,
             Status = ''1000 '', ContentLength = -1, Uncompressed = False,
             Body = ResponseBody \<lparr> body_str = 4, reqDone = Some 9, reqDoneClosed = False,
                                   onTrailers = True \<rparr> \<rparr>,
        [WriteRequestHeaders 4 True, StreamClose 4])"
  using malformed_status_resets
    [of "\<lparr> requestAuthority = ''example.com:443'', dialErr = None, openErr = None,
        contextErr = None, openRequestStream = Inr 4, newChan = 9,
        onStream = \<lparr> requestHeadersErr = None, writeHeadersErr = None,
                     responseHeaders = [[HeaderField '':status'' ''103''], [HeaderField '':status'' ''abc''],
                                        [HeaderField '':status'' ''200'']],
                     readHeadersErr = EOF \<rparr> \<rparr>"
        "\<lparr> authority = ''example.com:443'', disableCompression = False, dialed = True,
        handshakeErr = None \<rparr>"
        "\<lparr> Method = ''GET'', Host = ''example.com'', req_Header = Map.empty,
        req_hasBody = False, req_lenTrailer = 0 \<rparr>" 4
        "[[HeaderField '':status'' ''103'']]"
        "[HeaderField '':status'' ''abc'']"
        "[[HeaderField '':status'' ''200'']]" "\<lambda>k. []" "\<lparr> Method = ''GET'', Host = ''example.com'', req_Header = Map.empty,
        req_hasBody = False, req_lenTrailer = 0 \<rparr>" 9]
    malformed_status_resets
    [of "\<lparr> requestAuthority = ''example.com:443'', dialErr = None, openErr = None,
        contextErr = None, openRequestStream = Inr 4, newChan = 9,
        onStream = \<lparr> requestHeadersErr = None, writeHeadersErr = None,
                     responseHeaders = [[HeaderField '':status'' ''103''],
                                        [HeaderField '':status'' ''9223372036854775808'']],
                     readHeadersErr = EOF \<rparr> \<rparr>"
        "\<lparr> authority = ''example.com:443'', disableCompression = False, dialed = True,
        handshakeErr = None \<rparr>"
        "\<lparr> Method = ''GET'', Host = ''example.com'', req_Header = Map.empty,
        req_hasBody = False, req_lenTrailer = 0 \<rparr>" 4
        "[[HeaderField '':status'' ''103'']]"
        "[HeaderField '':status'' ''9223372036854775808'']"
        "[]" "\<lambda>k. []" "\<lparr> Method = ''GET'', Host = ''example.com'', req_Header = Map.empty,
        req_hasBody = False, req_lenTrailer = 0 \<rparr>" 9]
    malformed_status_resets
    [of "\<lparr> requestAuthority = ''example.com:443'', dialErr = None, openErr = None,
        contextErr = None, openRequestStream = Inr 4, newChan = 9,
        onStream = \<lparr> requestHeadersErr = None, writeHeadersErr = None,
                     responseHeaders = [[HeaderField '':status'' ''103''], [HeaderField '':status'' ''1000'']],
                     readHeadersErr = EOF \<rparr> \<rparr>"
        "\<lparr> authority = ''example.com:443'', disableCompression = False, dialed = True,
        handshakeErr = None \<rparr>"
        "\<lparr> Method = ''GET'', Host = ''example.com'', req_Header = Map.empty,
        req_hasBody = False, req_lenTrailer = 0 \<rparr>" 4
        "[[HeaderField '':status'' ''103'']]"
        "[HeaderField '':status'' ''1000'']"
        "[]" "\<lambda>k. []" "\<lparr> Method = ''GET'', Host = ''example.com'', req_Header = Map.empty,
        req_hasBody = False, req_lenTrailer = 0 \<rparr>" 9]
  by (simp add: RoundTrip_def doRequest_def writeRequest_def Let_def MethodGet0RTT_def
      Header_Get_def canonical_keys atoi_values pseudoHeaderStatus_def interimResponse_def
      malformedStatus_def newResponseBody_def)

text \<open>
  Every response that \<^verbatim>\<open>doRequest\<close> returns arises in this way: the request was written, and
  the frames read are interim responses followed by a frame with a status code outside 100
  to 199.
\<close>

lemma responseLoop_returns:
  "fst (responseLoop st s frames final res) = Inr r \<Longrightarrow>
   \<exists>pre headers post k. frames = pre @ headers # post \<and> list_all interimResponse pre
      \<and> frameStatus headers 0 = Some k \<and> (k < 100 \<or> 200 \<le> k)"
proof (induction frames arbitrary: res)
  case Nil
  then show ?case by simp
next
  case (Cons h frames)
  show ?case
  proof (cases "frameStatus h 0")
    case None
    then show ?thesis
      using Cons.prems by (simp add: fieldsLoop_malformed)
  next
    case (Some k)
    obtain status' where f:
      "fieldsLoop st s h res 0 [] = (Inr (res\<lparr>Header := addFields (Header res) h\<rparr>, k, status'), [])"
      using fieldsLoop_status [OF Some] by blast
    show ?thesis
    proof (cases "k < 100 \<or> 200 \<le> k")
      case True
      then have "h # frames = [] @ h # frames \<and> list_all interimResponse []
          \<and> frameStatus h 0 = Some k \<and> (k < 100 \<or> 200 \<le> k)"
        using Some by simp
      then show ?thesis by blast
    next
      case False
      then have "fst (responseLoop st s frames final (res\<lparr>Header := addFields (Header res) h\<rparr>))
                   = Inr r"
        using Cons.prems by (simp add: f)
      then obtain pre headers post j where p: "frames = pre @ headers # post"
        "list_all interimResponse pre" "frameStatus headers 0 = Some j" "j < 100 \<or> 200 \<le> j"
        using Cons.IH by blast
      have i: "interimResponse h"
        using Some False by (simp add: interimResponse_def)
      have "h # frames = (h # pre) @ headers # post \<and> list_all interimResponse (h # pre)
          \<and> frameStatus headers 0 = Some j \<and> (j < 100 \<or> 200 \<le> j)"
        using p i by simp
      then show ?thesis by blast
    qed
  qed
qed

lemma doRequest_returns:
  assumes ok: "fst (doRequest st c s req d x) = Inr res"
  shows "requestHeadersErr x = None \<and> writeHeadersErr x = None
       \<and> (\<exists>pre headers post k. responseHeaders x = pre @ headers # post
             \<and> list_all interimResponse pre
             \<and> frameStatus headers 0 = Some k \<and> (k < 100 \<or> 200 \<le> k))"
proof -
  let ?res0 = "\<lparr> Proto = ''HTTP/3'', ProtoMajor = 3, Header = Map.empty,
                 StatusCode = 0, Status = [], ContentLength = 0,
                 Uncompressed = False, Body = NoBody \<rparr>"
  let ?loop = "responseLoop st s (responseHeaders x) (readHeadersErr x) ?res0"
  let ?gz = "\<not> disableCompression c \<and> Method req \<noteq> ''HEAD''
             \<and> Header_Get (req_Header req) ''Accept-Encoding'' = []
             \<and> Header_Get (req_Header req) ''Range'' = []"
  have w: "fst (writeRequest s req ?gz x) = None"
    using ok
    by (cases "fst (writeRequest s req ?gz x)")
       (simp_all add: doRequest_def Let_def case_prod_beta)
  then have written: "requestHeadersErr x = None \<and> writeHeadersErr x = None"
    by (simp add: writeRequest_def split: option.splits)
  obtain r0 where loop: "fst ?loop = Inr r0"
    using ok w
    by (cases "fst ?loop") (simp_all add: doRequest_def Let_def case_prod_beta)
  show ?thesis
    using written responseLoop_returns [OF loop] by simp
qed

text \<open>
  C8, as stated, fails for a response that the client decompresses: for a GET without
  Accept-Encoding, the response with status 204 and \<^verbatim>\<open>content-encoding: gzip\<close> is returned
  with \<open>ContentLength = -1\<close>, not with \<open>ContentLength\<close> unset.
\<close>

theorem gzip_content_length_counterexample:
  "snd (RoundTrip (\<lambda>k. [])
      \<lparr> authority = ''example.com:443'', disableCompression = False, dialed = True,
        handshakeErr = None \<rparr>
      \<lparr> Method = ''GET'', Host = ''example.com'', req_Header = Map.empty,
        req_hasBody = False, req_lenTrailer = 0 \<rparr>
      \<lparr> requestAuthority = ''example.com:443'', dialErr = None, openErr = None,
        contextErr = None, openRequestStream = Inr 4, newChan = 9,
        onStream = \<lparr> requestHeadersErr = None, writeHeadersErr = None,
                     responseHeaders = [[HeaderField '':status'' ''204'',
                                         HeaderField ''content-encoding'' ''gzip'']],
                     readHeadersErr = EOF \<rparr> \<rparr>)
     = (Inr \<lparr> Proto = ''HTTP/3'', ProtoMajor = 3, Header = Map.empty, StatusCode = 204,
             Status = ''204 '', ContentLength = -1, Uncompressed = True,
             Body = GzipReader \<lparr> body_str = 4, reqDone = Some 9, reqDoneClosed = False,
                                 onTrailers = True \<rparr> \<rparr>,
        [WriteRequestHeaders 4 True, StreamClose 4])"
  by (simp add: RoundTrip_def doRequest_def writeRequest_def Let_def MethodGet0RTT_def
      Header_Get_def Header_Add_def Header_Del_def canonical_keys status_values
      pseudoHeaderStatus_def newResponseBody_def)

lemma ParseInt_range: "ParseInt v = Inr k \<Longrightarrow> - (2 ^ 63) \<le> k \<and> k < 2 ^ 63"
  by (auto simp add: ParseInt_def Let_def split: if_splits sum.splits)

text \<open>
  C8, amended. The request was written and the frames read are the interim responses \<open>pre\<close>
  and then the frame \<open>headers\<close> with a status code \<open>k\<close> outside 100 to 199, so that \<^verbatim>\<open>doRequest\<close>
  returns a response; its status code is \<open>k\<close>. Let \<open>H\<close> be the header made of the fields of
  these frames. The client decompresses the response itself exactly when it asked for gzip
  (compression is not disabled, the method is not HEAD, and the request has neither
  Accept-Encoding nor Range) and \<open>H\<close> has \<^verbatim>\<open>Content-Encoding: gzip\<close>; then \<open>Uncompressed\<close> is
  set, Content-Encoding and Content-Length are deleted from the header and \<open>ContentLength\<close>
  is -1. Otherwise the header is \<open>H\<close>, and: if \<open>H\<close> has a Transfer-Encoding header, or the
  status is informational (which the status of a returned response never is) or 204, or the
  method was CONNECT and the status is 2xx, \<open>ContentLength\<close> is left unset (0); otherwise it
  is the parsed value of the Content-Length header when the header has exactly one value
  and this parses, and -1 if not. The value fits 64 bits signed.
\<close>

theorem content_length_rule:
  assumes written: "requestHeadersErr x = None \<and> writeHeadersErr x = None"
    and frames: "responseHeaders x = pre @ headers # post"
    and interim: "list_all interimResponse pre"
    and status: "frameStatus headers 0 = Some k"
    and final: "k < 100 \<or> 200 \<le> k"
  shows "\<exists>res. fst (doRequest st c s req d x) = Inr res
       \<and> StatusCode res = k
       \<and> (let H = receivedHeader (pre @ [headers]);
               gzip = (\<not> disableCompression c \<and> Method req \<noteq> ''HEAD''
                       \<and> Header_Get (req_Header req) ''Accept-Encoding'' = []
                       \<and> Header_Get (req_Header req) ''Range'' = []
                       \<and> Header_Get H ''Content-Encoding'' = ''gzip'')
           in Uncompressed res = gzip
            \<and> Header res
                = (if gzip then Header_Del (Header_Del H ''Content-Encoding'') ''Content-Length''
                   else H)
            \<and> ContentLength res
                = (if gzip then -1
                   else if H ''Transfer-Encoding'' \<noteq> None
                           \<or> (100 \<le> k \<and> k < 200)
                           \<or> k = 204
                           \<or> (Method req = ''CONNECT'' \<and> 200 \<le> k \<and> k < 300)
                   then 0
                   else (case H ''Content-Length'' of
                           Some [v] \<Rightarrow> (case ParseInt v of Inr n \<Rightarrow> n | Inl e \<Rightarrow> -1)
                         | _ \<Rightarrow> -1)))
       \<and> - (2 ^ 63) \<le> ContentLength res \<and> ContentLength res < 2 ^ 63"
proof -
  let ?H = "receivedHeader (pre @ [headers])"
  let ?gz = "\<not> disableCompression c \<and> Method req \<noteq> ''HEAD''
             \<and> Header_Get (req_Header req) ''Accept-Encoding'' = []
             \<and> Header_Get (req_Header req) ''Range'' = []"
  let ?block = "?H ''Transfer-Encoding'' = None \<and> k \<noteq> 204
                \<and> \<not> (Method req = ''CONNECT'' \<and> 200 \<le> k \<and> k < 300)"
  let ?clen = "case ?H ''Content-Length'' of
                 Some [v] \<Rightarrow> (case ParseInt v of Inr n \<Rightarrow> n | Inl e \<Rightarrow> -1)
               | _ \<Rightarrow> -1"
  have w1: "requestHeadersErr x = None" and w2: "writeHeadersErr x = None"
    using written by simp_all
  have inf: "\<not> (100 \<le> k \<and> k < 200)" using final by auto
  have range: "- (2 ^ 63) \<le> ?clen \<and> ?clen < 2 ^ 63"
    using ParseInt_range
    by (auto split: option.splits list.splits sum.splits)
  obtain status' where dr:
    "fst (doRequest st c s req d x) =
           Inr (if ?gz \<and> Header_Get ?H ''Content-Encoding'' = ''gzip''
                 then \<lparr> Proto = ''HTTP/3'', ProtoMajor = 3,
                        Header = Header_Del (Header_Del ?H ''Content-Encoding'') ''Content-Length'',
                        StatusCode = k, Status = status', ContentLength = -1,
                        Uncompressed = True, Body = GzipReader (newResponseBody s True d) \<rparr>
                 else \<lparr> Proto = ''HTTP/3'', ProtoMajor = 3, Header = ?H,
                        StatusCode = k, Status = status',
                        ContentLength = (if ?block then ?clen else 0),
                        Uncompressed = False,
                        Body = ResponseBody (newResponseBody s True d) \<rparr>)"
    using doRequest_final [OF w1 w2 frames interim status final refl refl refl refl,
        of st c s req d]
    by auto
  show ?thesis
  proof (cases "?gz \<and> Header_Get ?H ''Content-Encoding'' = ''gzip''")
    case True
    have "fst (doRequest st c s req d x) =
           Inr \<lparr> Proto = ''HTTP/3'', ProtoMajor = 3,
                        Header = Header_Del (Header_Del ?H ''Content-Encoding'') ''Content-Length'',
                        StatusCode = k, Status = status', ContentLength = -1,
                        Uncompressed = True, Body = GzipReader (newResponseBody s True d) \<rparr>"
      by (simp only: dr True if_True simp_thms)
    then show ?thesis using True by (simp add: Let_def)
  next
    case False
    have r: "fst (doRequest st c s req d x) =
           Inr \<lparr> Proto = ''HTTP/3'', ProtoMajor = 3, Header = ?H,
                        StatusCode = k, Status = status',
                        ContentLength = (if ?block then ?clen else 0),
                        Uncompressed = False,
                        Body = ResponseBody (newResponseBody s True d) \<rparr>"
      by (simp only: dr False if_False)
    show ?thesis
    proof (cases ?block)
      case True
      have l: "(if ?block then ?clen else 0) = ?clen" using True by simp
      show ?thesis
        unfolding r l Let_def using False True inf range by auto
    next
      case b: False
      have l: "(if ?block then ?clen else 0) = 0" by (simp only: b if_False)
      show ?thesis
        unfolding r l Let_def using False b inf by auto
    qed
  qed
qed

theorem content_length_rule_witness:
  "fst (doRequest (\<lambda>k. [])
      \<lparr> authority = ''example.com:443'', disableCompression = False, dialed = True,
        handshakeErr = None \<rparr> 4
      \<lparr> Method = ''GET'', Host = ''example.com'', req_Header = Map.empty,
        req_hasBody = False, req_lenTrailer = 0 \<rparr> 9
      \<lparr> requestHeadersErr = None, writeHeadersErr = None,
        responseHeaders = [[HeaderField '':status'' ''200'',
                            HeaderField ''content-length'' ''5'']],
        readHeadersErr = EOF \<rparr>)
     = Inr \<lparr> Proto = ''HTTP/3'', ProtoMajor = 3,
             Header = [''Content-Length'' \<mapsto> [''5'']], StatusCode = 200,
             Status = ''200 '', ContentLength = 5, Uncompressed = False,
             Body = ResponseBody \<lparr> body_str = 4, reqDone = Some 9, reqDoneClosed = False,
                                   onTrailers = True \<rparr> \<rparr>
   \<and> fst (doRequest (\<lambda>k. [])
      \<lparr> authority = ''example.com:443'', disableCompression = False, dialed = True,
        handshakeErr = None \<rparr> 4
      \<lparr> Method = ''GET'', Host = ''example.com'', req_Header = Map.empty,
        req_hasBody = False, req_lenTrailer = 0 \<rparr> 9
      \<lparr> requestHeadersErr = None, writeHeadersErr = None,
        responseHeaders = [[HeaderField '':status'' ''200'',
                            HeaderField ''content-encoding'' ''gzip'',
                            HeaderField ''content-length'' ''5'']],
        readHeadersErr = EOF \<rparr>)
     = Inr \<lparr> Proto = ''HTTP/3'', ProtoMajor = 3,
             Header = Map.empty, StatusCode = 200,
             Status = ''200 '', ContentLength = -1, Uncompressed = True,
             Body = GzipReader \<lparr> body_str = 4, reqDone = Some 9, reqDoneClosed = False,
                                 onTrailers = True \<rparr> \<rparr>"
  using content_length_rule
    [of "\<lparr> requestHeadersErr = None, writeHeadersErr = None,
        responseHeaders = [[HeaderField '':status'' ''200'',
                            HeaderField ''content-length'' ''5'']],
        readHeadersErr = EOF \<rparr>"
        "[]" "[HeaderField '':status'' ''200'', HeaderField ''content-length'' ''5'']" "[]" 200 "\<lambda>k. []"
        "\<lparr> authority = ''example.com:443'', disableCompression = False, dialed = True,
        handshakeErr = None \<rparr>" 4
        "\<lparr> Method = ''GET'', Host = ''example.com'', req_Header = Map.empty,
        req_hasBody = False, req_lenTrailer = 0 \<rparr>" 9]
    content_length_rule
    [of "\<lparr> requestHeadersErr = None, writeHeadersErr = None,
        responseHeaders = [[HeaderField '':status'' ''200'',
                            HeaderField ''content-encoding'' ''gzip'',
                            HeaderField ''content-length'' ''5'']],
        readHeadersErr = EOF \<rparr>"
        "[]" "[HeaderField '':status'' ''200'', HeaderField ''content-encoding'' ''gzip'',
         HeaderField ''content-length'' ''5'']" "[]" 200 "\<lambda>k. []"
        "\<lparr> authority = ''example.com:443'', disableCompression = False, dialed = True,
        handshakeErr = None \<rparr>" 4
        "\<lparr> Method = ''GET'', Host = ''example.com'', req_Header = Map.empty,
        req_hasBody = False, req_lenTrailer = 0 \<rparr>" 9]
  by (simp add: doRequest_def writeRequest_def Let_def
      Header_Get_def Header_Add_def Header_Del_def canonical_keys atoi_values
      pseudoHeaderStatus_def newResponseBody_def canonical_lower receivedHeader_def)

end
